theory Spec2Isabelle
  imports Main "HOL-Library.Word"
begin

section \<open>Values exchanged with the client and with the upstream service\<close>

text \<open>
  The relay of \<^verbatim>\<open>main.py\<close> is modelled sequentially, with every effect made explicit.
  Audio payloads are byte strings; a client message is the value \<^verbatim>\<open>json.loads\<close> returns
  or \<^verbatim>\<open>send_json\<close> receives, so a Python \<^verbatim>\<open>dict\<close> is an association list read with
  \<open>map_of\<close>. Numbers are integers (a JSON float takes the same branches as a non-zero
  number on every path of the program, except that \<^verbatim>\<open>0.0\<close> is falsy like \<^verbatim>\<open>0\<close>).
\<close>

type_synonym bytes = "8 word list"

datatype jval =
    JNull
  | JBool bool
  | JNum int
  | JStr string
  | JArr "jval list"
  | JObj "(string \<times> jval) list"

text \<open>Python truthiness of a decoded JSON value (\<^verbatim>\<open>if audio_base64:\<close>, \<^verbatim>\<open>if text:\<close>).\<close>

definition truthy :: "jval \<Rightarrow> bool" where
  "truthy v =
     (case v of
        JNull \<Rightarrow> False
      | JBool b \<Rightarrow> b
      | JNum n \<Rightarrow> n \<noteq> 0
      | JStr s \<Rightarrow> s \<noteq> []
      | JArr xs \<Rightarrow> xs \<noteq> []
      | JObj kvs \<Rightarrow> kvs \<noteq> [])"

definition py_type_name :: "jval \<Rightarrow> string" where
  "py_type_name v =
     (case v of
        JNull \<Rightarrow> ''NoneType''
      | JBool b \<Rightarrow> ''bool''
      | JNum n \<Rightarrow> ''int''
      | JStr s \<Rightarrow> ''str''
      | JArr xs \<Rightarrow> ''list''
      | JObj kvs \<Rightarrow> ''dict'')"

text \<open>
  An exception is its class and the text \<^verbatim>\<open>str(e)\<close> gives. Only
  \<^verbatim>\<open>WebSocketDisconnect\<close> is told apart by the handlers of the program; every class
  below is a subclass of \<^verbatim>\<open>Exception\<close>.
\<close>

datatype exn_class = WebSocketDisconnect | AttributeError | TypeError | OtherException

datatype exn = Exn exn_class string

fun exn_class_of :: "exn \<Rightarrow> exn_class" where
  "exn_class_of (Exn c m) = c"

fun str_exn :: "exn \<Rightarrow> string" where
  "str_exn (Exn c m) = m"

definition quoted :: "string \<Rightarrow> string" where
  "quoted s = CHR 0x27 # s @ [CHR 0x27]"

definition no_attribute :: "string \<Rightarrow> string \<Rightarrow> exn" where
  "no_attribute ty a =
     Exn AttributeError (quoted ty @ '' object has no attribute '' @ quoted a)"

definition no_len :: "jval \<Rightarrow> exn" where
  "no_len v = Exn TypeError (''object of type '' @ quoted (py_type_name v) @ '' has no len()'')"

text \<open>\<^verbatim>\<open>data.get(key)\<close> and \<^verbatim>\<open>data.get(key, default)\<close>: only a dict has \<^verbatim>\<open>get\<close>.\<close>

definition py_get :: "jval \<Rightarrow> string \<Rightarrow> jval \<Rightarrow> exn + jval" where
  "py_get d k dflt =
     (case d of
        JObj kvs \<Rightarrow> (case map_of kvs k of None \<Rightarrow> Inr dflt | Some v \<Rightarrow> Inr v)
      | _ \<Rightarrow> Inl (no_attribute (py_type_name d) ''get''))"

text \<open>\<^verbatim>\<open>len(v)\<close>: defined on strings, lists and dicts, a \<^verbatim>\<open>TypeError\<close> otherwise.\<close>

definition py_len :: "jval \<Rightarrow> exn + nat" where
  "py_len v =
     (case v of
        JStr s \<Rightarrow> Inr (length s)
      | JArr xs \<Rightarrow> Inr (length xs)
      | JObj kvs \<Rightarrow> Inr (length kvs)
      | _ \<Rightarrow> Inl (no_len v))"

text \<open>\<^verbatim>\<open>str(n)\<close> of a natural number, for the f-string of the MIME type.\<close>

fun str_nat :: "nat \<Rightarrow> string" where
  "str_nat n =
     (if n < 10 then [''0123456789'' ! n]
      else str_nat (n div 10) @ [''0123456789'' ! (n mod 10)])"

declare str_nat.simps [simp del]

definition MODEL :: string where
  "MODEL = ''gemini-2.5-flash-native-audio-preview-12-2025''"

definition SAMPLE_RATE :: nat where
  "SAMPLE_RATE = 16000"

definition OUTPUT_SAMPLE_RATE :: nat where
  "OUTPUT_SAMPLE_RATE = 24000"

subsection \<open>Objects of the upstream SDK, as the program reads them\<close>

record Blob =
  blob_data :: bytes
  mimeType :: string

record FunctionCall =
  fc_id :: string
  fc_name :: string
  fc_args :: jval

record FunctionResponse =
  fr_id :: string
  fr_name :: string
  fr_response :: jval

record ToolCall =
  function_calls :: "FunctionCall list"

record Transcription =
  transcription_text :: "string option"

text \<open>
  Of \<^verbatim>\<open>model_turn\<close> only the presence is read (it decides a debug log line).
\<close>

record ServerContent =
  input_transcription :: "Transcription option"
  output_transcription :: "Transcription option"
  model_turn :: bool
  turn_complete :: "bool option"
  interrupted :: "bool option"

text \<open>
  One event of a turn's stream: \<^verbatim>\<open>response.tool_call\<close>, \<^verbatim>\<open>response.data\<close>,
  \<^verbatim>\<open>response.text\<close> and \<^verbatim>\<open>response.server_content\<close>, each of which may be \<^verbatim>\<open>None\<close>.
\<close>

record LiveServerMessage =
  tool_call :: "ToolCall option"
  response_data :: "bytes option"
  response_text :: "string option"
  server_content :: "ServerContent option"

subsection \<open>Effects\<close>

text \<open>
  Every call that leaves the program is an event of a trace, tagged with the exception it
  raised (\<open>None\<close> when it returned). A log record is its level and the literal text of
  its format string. \<open>Close_called\<close> records the entry into \<^verbatim>\<open>GeminiSession.close\<close>.
\<close>

datatype call =
    Ws_send_json jval
  | Live_connect
  | Send_realtime_input_media Blob
  | Send_realtime_input_end_of_turn
  | Session_send jval
  | Send_tool_response "FunctionResponse list"
  | Session_manager_aexit

datatype loglevel = DEBUG | INFO | WARNING | ERROR

datatype event =
    Log loglevel string
  | Call call "exn option"
  | Create_task
  | Cancel_task
  | Close_called

text \<open>
  The environment decides, from everything that happened so far, whether a call raises;
  it also holds the two functions of Python's \<^verbatim>\<open>base64\<close> module.
\<close>

record env =
  raises :: "event list \<Rightarrow> call \<Rightarrow> exn option"
  b64decode :: "string \<Rightarrow> exn + bytes"
  b64encode :: "bytes \<Rightarrow> string"

definition perform :: "env \<Rightarrow> event list \<Rightarrow> call \<Rightarrow> exn option \<times> event list" where
  "perform e tr c = (raises e tr c, tr @ [Call c (raises e tr c)])"

text \<open>Sequencing of steps that may raise: the first exception ends the sequence.\<close>

definition and_then ::
  "exn option \<times> event list \<Rightarrow> (event list \<Rightarrow> exn option \<times> event list) \<Rightarrow> exn option \<times> event list"
where
  "and_then r k = (case fst r of Some x \<Rightarrow> (Some x, snd r) | None \<Rightarrow> k (snd r))"

section \<open>GeminiSession\<close>

datatype live_session = Live_session

datatype session_manager = Session_manager

record GeminiSession =
  session :: "live_session option"
  session_manager :: "session_manager option"
  is_active :: bool
  receive_task :: "unit option"

definition init_session :: GeminiSession where
  "init_session =
     \<lparr>session = None, session_manager = None, is_active = False, receive_task = None\<rparr>"

subsection \<open>connect\<close>

definition connected_message :: jval where
  "connected_message =
     JObj [(''type'', JStr ''connected''), (''message'', JStr ''Successfully connected to Gemini'')]"

definition connect_failed ::
  "exn \<Rightarrow> GeminiSession \<Rightarrow> event list \<Rightarrow> (exn + bool) \<times> GeminiSession \<times> event list"
where
  "connect_failed x s tr =
     (Inl x, s\<lparr>is_active := False\<rparr>, tr @ [Log ERROR ''Error connecting to Gemini: {e}''])"

definition connect ::
  "env \<Rightarrow> GeminiSession \<Rightarrow> event list \<Rightarrow> (exn + bool) \<times> GeminiSession \<times> event list"
where
  "connect e s tr =
     (let tr1 = tr @ [Log INFO ''Connecting to Gemini model: {MODEL}''];
          r1 = perform e tr1 Live_connect
      in case fst r1 of
           Some x \<Rightarrow> connect_failed x s (snd r1)
         | None \<Rightarrow>
             (let s1 = s\<lparr>session := Some Live_session, session_manager := Some Session_manager\<rparr>;
                  tr2 = snd r1 @ [Log INFO ''Connected to Gemini Live API''];
                  s2 = s1\<lparr>is_active := True\<rparr>;
                  r2 = perform e tr2 (Ws_send_json connected_message)
              in case fst r2 of
                   Some x \<Rightarrow> connect_failed x s2 (snd r2)
                 | None \<Rightarrow> (Inr True, s2, snd r2)))"

subsection \<open>send_audio\<close>

definition py_b64decode :: "env \<Rightarrow> jval \<Rightarrow> exn + bytes" where
  "py_b64decode e v =
     (case v of
        JStr s \<Rightarrow> b64decode e s
      | _ \<Rightarrow> Inl (Exn TypeError
                 (''argument should be a bytes-like object or ASCII string, not ''
                  @ quoted (py_type_name v))))"

definition audio_blob :: "bytes \<Rightarrow> Blob" where
  "audio_blob audio_bytes =
     \<lparr>blob_data = audio_bytes, mimeType = ''audio/pcm;rate='' @ str_nat SAMPLE_RATE\<rparr>"

definition send_audio_failed :: "GeminiSession \<Rightarrow> event list \<Rightarrow> GeminiSession \<times> event list" where
  "send_audio_failed s tr =
     (s\<lparr>is_active := False\<rparr>, tr @ [Log ERROR ''Error sending audio to Gemini: {e}''])"

definition send_audio ::
  "env \<Rightarrow> GeminiSession \<Rightarrow> event list \<Rightarrow> jval \<Rightarrow> GeminiSession \<times> event list"
where
  "send_audio e s tr audio_base64 =
     (if session s = None \<or> \<not> is_active s
      then (s, tr @ [Log WARNING ''Cannot send audio - session not active''])
      else
        (case py_b64decode e audio_base64 of
           Inl x \<Rightarrow> send_audio_failed s tr
         | Inr audio_bytes \<Rightarrow>
             (let tr1 = tr @ [Log DEBUG ''Decoded {len(audio_bytes)} bytes of PCM audio''];
                  r = perform e tr1 (Send_realtime_input_media (audio_blob audio_bytes))
              in case fst r of
                   Some x \<Rightarrow> send_audio_failed s (snd r)
                 | None \<Rightarrow> (s, snd r @ [Log DEBUG ''Sent {len(audio_bytes)} bytes to Gemini'']))))"

subsection \<open>handle_tool_call\<close>

definition tool_call_message :: "FunctionCall \<Rightarrow> jval" where
  "tool_call_message fc =
     JObj [(''type'', JStr ''tool_call''), (''tool'', JStr (fc_name fc)), (''args'', fc_args fc)]"

definition function_response :: "FunctionCall \<Rightarrow> FunctionResponse" where
  "function_response fc =
     \<lparr>fr_id = fc_id fc, fr_name = fc_name fc,
      fr_response = JObj [(''result'', JStr ''ok''), (''scheduling'', JStr ''SILENT'')]\<rparr>"

text \<open>
  The \<^verbatim>\<open>for fc in tool_call.function_calls\<close> loop; \<open>acc\<close> is \<^verbatim>\<open>function_responses\<close>.
  The result is the exception that left the loop, or the list built.
\<close>

fun notify_tools ::
  "env \<Rightarrow> event list \<Rightarrow> FunctionCall list \<Rightarrow> FunctionResponse list
   \<Rightarrow> (exn + FunctionResponse list) \<times> event list"
where
  "notify_tools e tr [] acc = (Inr acc, tr)"
| "notify_tools e tr (fc # fcs) acc =
     (let tr1 = tr @ [Log INFO ''Tool call received: {fc.name} with args: {fc.args}''];
          r = perform e tr1 (Ws_send_json (tool_call_message fc))
      in case fst r of
           Some x \<Rightarrow> (Inl x, snd r)
         | None \<Rightarrow> notify_tools e (snd r) fcs (acc @ [function_response fc]))"

text \<open>
  The whole body is inside \<^verbatim>\<open>try ... except Exception\<close>, and no attribute of the
  session is assigned: the function returns the trace only.
\<close>

definition handle_tool_call ::
  "env \<Rightarrow> GeminiSession \<Rightarrow> event list \<Rightarrow> ToolCall \<Rightarrow> event list"
where
  "handle_tool_call e s tr tc =
     (let r = notify_tools e tr (function_calls tc) []
      in case fst r of
           Inl x \<Rightarrow> snd r @ [Log ERROR ''Error handling tool call: {e}'']
         | Inr function_responses \<Rightarrow>
             (case session s of
                None \<Rightarrow> snd r @ [Log ERROR ''Error handling tool call: {e}'']
              | Some ls \<Rightarrow>
                  (let r2 = perform e (snd r) (Send_tool_response function_responses)
                   in case fst r2 of
                        Some x \<Rightarrow> snd r2 @ [Log ERROR ''Error handling tool call: {e}'']
                      | None \<Rightarrow> snd r2 @ [Log INFO ''Sent tool responses''])))"

subsection \<open>receive_responses\<close>

definition audio_response_message :: "env \<Rightarrow> bytes \<Rightarrow> jval" where
  "audio_response_message e d =
     JObj [(''type'', JStr ''audio_response''), (''data'', JStr (b64encode e d))]"

definition json_of_text :: "string option \<Rightarrow> jval" where
  "json_of_text t = (case t of None \<Rightarrow> JNull | Some x \<Rightarrow> JStr x)"

definition transcription_message :: "jval \<Rightarrow> jval" where
  "transcription_message t = JObj [(''type'', JStr ''transcription''), (''text'', t)]"

definition ai_transcription_message :: "jval \<Rightarrow> jval" where
  "ai_transcription_message t = JObj [(''type'', JStr ''ai_transcription''), (''text'', t)]"

definition turn_complete_message :: jval where
  "turn_complete_message = JObj [(''type'', JStr ''turn_complete'')]"

definition interrupted_message :: jval where
  "interrupted_message = JObj [(''type'', JStr ''interrupted'')]"

text \<open>
  The body of the \<^verbatim>\<open>async for\<close> loop after its \<^verbatim>\<open>break\<close> test, one definition for
  each \<^verbatim>\<open>if\<close> of the source, in the source's order. None of them assigns an attribute
  of the session; each returns the exception it raised, if any, and the trace.
\<close>

definition tool_call_step ::
  "env \<Rightarrow> GeminiSession \<Rightarrow> LiveServerMessage \<Rightarrow> event list \<Rightarrow> exn option \<times> event list"
where
  "tool_call_step e s response tr =
     (case tool_call response of
        None \<Rightarrow> (None, tr)
      | Some tc \<Rightarrow> (None, handle_tool_call e s tr tc))"

definition data_step ::
  "env \<Rightarrow> LiveServerMessage \<Rightarrow> event list \<Rightarrow> exn option \<times> event list"
where
  "data_step e response tr =
     (case response_data response of
        None \<Rightarrow> (None, tr)
      | Some d \<Rightarrow>
          if d = [] then (None, tr)
          else and_then (perform e tr (Ws_send_json (audio_response_message e d)))
                 (\<lambda>tr1. (None,
                    tr1 @ [Log INFO ''Sent audio response to client ({len(response.data)} bytes)''])))"

definition text_step ::
  "env \<Rightarrow> LiveServerMessage \<Rightarrow> event list \<Rightarrow> exn option \<times> event list"
where
  "text_step e response tr =
     (case response_text response of
        None \<Rightarrow> (None, tr)
      | Some t \<Rightarrow>
          if t = [] then (None, tr)
          else perform e (tr @ [Log INFO ''Gemini text: {response.text}''])
                 (Ws_send_json (transcription_message (JStr t))))"

text \<open>
  \<^verbatim>\<open>response.server_content.input_transcription\<close> is read with no test of
  \<^verbatim>\<open>response.server_content\<close>: on \<^verbatim>\<open>None\<close> the attribute access raises.
\<close>

definition input_transcription_step ::
  "env \<Rightarrow> LiveServerMessage \<Rightarrow> event list \<Rightarrow> exn option \<times> event list"
where
  "input_transcription_step e response tr =
     (case server_content response of
        None \<Rightarrow> (Some (no_attribute ''NoneType'' ''input_transcription''), tr)
      | Some sc \<Rightarrow>
          (case input_transcription sc of
             None \<Rightarrow> (None, tr)
           | Some t \<Rightarrow>
               perform e tr
                 (Ws_send_json (transcription_message (json_of_text (transcription_text t))))))"

definition output_transcription_step ::
  "env \<Rightarrow> LiveServerMessage \<Rightarrow> event list \<Rightarrow> exn option \<times> event list"
where
  "output_transcription_step e response tr =
     (case server_content response of
        None \<Rightarrow> (Some (no_attribute ''NoneType'' ''output_transcription''), tr)
      | Some sc \<Rightarrow>
          (case output_transcription sc of
             None \<Rightarrow> (None, tr)
           | Some t \<Rightarrow>
               perform e tr
                 (Ws_send_json (ai_transcription_message (json_of_text (transcription_text t))))))"

definition model_turn_step :: "ServerContent \<Rightarrow> event list \<Rightarrow> exn option \<times> event list" where
  "model_turn_step sc tr =
     (if model_turn sc then (None, tr @ [Log DEBUG ''Model turn received'']) else (None, tr))"

definition turn_complete_step ::
  "env \<Rightarrow> ServerContent \<Rightarrow> event list \<Rightarrow> exn option \<times> event list"
where
  "turn_complete_step e sc tr =
     (if turn_complete sc = Some True
      then perform e (tr @ [Log INFO ''Turn complete'']) (Ws_send_json turn_complete_message)
      else (None, tr))"

definition interrupted_step ::
  "env \<Rightarrow> ServerContent \<Rightarrow> event list \<Rightarrow> exn option \<times> event list"
where
  "interrupted_step e sc tr =
     (if interrupted sc = Some True
      then perform e (tr @ [Log INFO ''Generation interrupted'']) (Ws_send_json interrupted_message)
      else (None, tr))"

definition server_content_step ::
  "env \<Rightarrow> LiveServerMessage \<Rightarrow> event list \<Rightarrow> exn option \<times> event list"
where
  "server_content_step e response tr =
     (case server_content response of
        None \<Rightarrow> (None, tr)
      | Some sc \<Rightarrow>
          and_then (model_turn_step sc tr)
            (\<lambda>tr1. and_then (turn_complete_step e sc tr1) (interrupted_step e sc)))"

definition process_response ::
  "env \<Rightarrow> GeminiSession \<Rightarrow> event list \<Rightarrow> LiveServerMessage \<Rightarrow> exn option \<times> event list"
where
  "process_response e s tr response =
     and_then (tool_call_step e s response tr)
       (\<lambda>tr1. and_then (data_step e response tr1)
         (\<lambda>tr2. and_then (text_step e response tr2)
           (\<lambda>tr3. and_then (input_transcription_step e response tr3)
             (\<lambda>tr4. and_then (output_transcription_step e response tr4)
               (server_content_step e response)))))"

text \<open>
  What one \<^verbatim>\<open>async for\<close> delivers. The inbound loop runs in the same event loop and may
  clear \<^verbatim>\<open>is_active\<close> (an audio send that failed) while this task awaits the next event:
  \<open>cleared_meanwhile\<close> says so. A turn's stream ends by exhaustion or by raising.
\<close>

record delivery =
  cleared_meanwhile :: bool
  delivered :: LiveServerMessage

record turn =
  deliveries :: "delivery list"
  cleared_at_end :: bool
  stream_raises :: "exn option"

datatype turn_result = Exhausted | Broke | Raised exn

definition clear_if :: "bool \<Rightarrow> GeminiSession \<Rightarrow> GeminiSession" where
  "clear_if b s = (if b then s\<lparr>is_active := False\<rparr> else s)"

fun consume_turn ::
  "env \<Rightarrow> GeminiSession \<Rightarrow> event list \<Rightarrow> delivery list
   \<Rightarrow> turn_result \<times> GeminiSession \<times> event list"
where
  "consume_turn e s tr [] = (Exhausted, s, tr)"
| "consume_turn e s tr (d # ds) =
     (let s1 = clear_if (cleared_meanwhile d) s
      in if \<not> is_active s1 then (Broke, s1, tr)
         else
           (let r = process_response e s1 tr (delivered d)
            in case fst r of
                 Some x \<Rightarrow> (Raised x, s1, snd r)
               | None \<Rightarrow> consume_turn e s1 (snd r) ds))"

text \<open>
  \<^verbatim>\<open>receive_responses\<close> over the turns the upstream delivers before the task is
  cancelled: \<open>Task_returned\<close> when the coroutine has returned, \<open>Task_pending\<close> when it
  awaits the next turn.
\<close>

datatype task_status = Task_returned | Task_pending

definition receive_failed ::
  "GeminiSession \<Rightarrow> event list \<Rightarrow> task_status \<times> GeminiSession \<times> event list"
where
  "receive_failed s tr =
     (Task_returned, s\<lparr>is_active := False\<rparr>, tr @ [Log ERROR ''Error receiving from Gemini: {e}''])"

fun receive_responses ::
  "env \<Rightarrow> GeminiSession \<Rightarrow> event list \<Rightarrow> turn list
   \<Rightarrow> task_status \<times> GeminiSession \<times> event list"
where
  "receive_responses e s tr [] =
     (if is_active s then (Task_pending, s, tr) else (Task_returned, s, tr))"
| "receive_responses e s tr (t # ts) =
     (if \<not> is_active s then (Task_returned, s, tr)
      else
        (case session s of
           None \<Rightarrow> receive_failed s tr
         | Some ls \<Rightarrow>
             (case consume_turn e s tr (deliveries t) of
                (Raised x, s1, tr1) \<Rightarrow> receive_failed s1 tr1
              | (Broke, s1, tr1) \<Rightarrow> receive_responses e s1 tr1 ts
              | (Exhausted, s1, tr1) \<Rightarrow>
                  (case stream_raises t of
                     Some x \<Rightarrow> receive_failed s1 tr1
                   | None \<Rightarrow> receive_responses e (clear_if (cleared_at_end t) s1) tr1 ts))))"

subsection \<open>close\<close>

definition close :: "env \<Rightarrow> GeminiSession \<Rightarrow> event list \<Rightarrow> GeminiSession \<times> event list" where
  "close e s tr =
     (let tr0 = tr @ [Close_called];
          s1 = s\<lparr>is_active := False\<rparr>
      in case session_manager s1 of
           None \<Rightarrow> (s1, tr0)
         | Some m \<Rightarrow>
             (let r = perform e tr0 Session_manager_aexit
              in case fst r of
                   None \<Rightarrow> (s1, snd r @ [Log INFO ''Closed Gemini session''])
                 | Some x \<Rightarrow> (s1, snd r @ [Log ERROR ''Error closing session: {e}''])))"

section \<open>websocket_endpoint\<close>

text \<open>
  What \<^verbatim>\<open>await websocket.receive_text()\<close> followed by \<^verbatim>\<open>json.loads\<close> yields: a decoded
  value, a text that \<^verbatim>\<open>json.loads\<close> rejects, or an exception of \<^verbatim>\<open>receive_text\<close>
  (\<^verbatim>\<open>WebSocketDisconnect\<close> when the client went away).
\<close>

datatype inbound =
    Inbound_json jval
  | Inbound_malformed
  | Inbound_raises exn

text \<open>
  The outbound task shares \<^verbatim>\<open>is_active\<close> with the handler and may clear it whenever the
  handler awaits: while it waits for the next client message, or while it forwards one.
\<close>

record arrival =
  cleared_while_receiving :: bool
  inbound :: inbound
  cleared_while_handling :: bool

datatype flow = Continue | Break

text \<open>The two \<^verbatim>\<open>except\<close> clauses of the loop body; both leave the loop.\<close>

definition loop_except ::
  "exn \<Rightarrow> GeminiSession \<Rightarrow> event list \<Rightarrow> flow \<times> GeminiSession \<times> event list"
where
  "loop_except x s tr =
     (if exn_class_of x = WebSocketDisconnect
      then (Break, s, tr @ [Log INFO ''Client disconnected''])
      else (Break, s, tr @ [Log ERROR ''Error processing client message: {e}'']))"

definition on_audio_chunk ::
  "env \<Rightarrow> GeminiSession \<Rightarrow> event list \<Rightarrow> jval \<Rightarrow> flow \<times> GeminiSession \<times> event list"
where
  "on_audio_chunk e s tr data =
     (case py_get data ''data'' JNull of
        Inl x \<Rightarrow> loop_except x s tr
      | Inr audio_base64 \<Rightarrow>
          if truthy audio_base64 then
            (case py_len audio_base64 of
               Inl x \<Rightarrow> loop_except x s tr
             | Inr n \<Rightarrow>
                 (let r = send_audio e s
                            (tr @ [Log DEBUG ''Received audio chunk: {len(audio_base64)} bytes''])
                            audio_base64
                  in (Continue, fst r, snd r)))
          else (Continue, s, tr))"

definition on_end_of_turn ::
  "env \<Rightarrow> GeminiSession \<Rightarrow> event list \<Rightarrow> flow \<times> GeminiSession \<times> event list"
where
  "on_end_of_turn e s tr =
     (let tr1 = tr @ [Log INFO ''User finished speaking - sending realtime end signal to Gemini'']
      in case session s of
           None \<Rightarrow> (Continue, s, tr1)
         | Some ls \<Rightarrow>
             (let r = perform e tr1 Send_realtime_input_end_of_turn
              in case fst r of
                   None \<Rightarrow>
                     (Continue, s,
                      snd r @ [Log INFO ''Sent realtime end_of_turn signal to Gemini successfully''])
                 | Some x \<Rightarrow> (Continue, s, snd r @ [Log ERROR ''Error sending end_of_turn: {e}''])))"

definition on_text_message ::
  "env \<Rightarrow> GeminiSession \<Rightarrow> event list \<Rightarrow> jval \<Rightarrow> flow \<times> GeminiSession \<times> event list"
where
  "on_text_message e s tr data =
     (case py_get data ''text'' (JStr []) of
        Inl x \<Rightarrow> loop_except x s tr
      | Inr text_value \<Rightarrow>
          if truthy text_value then
            (let tr1 = tr @ [Log INFO ''Received text message: {text}'']
             in case session s of
                  None \<Rightarrow> loop_except (no_attribute ''NoneType'' ''send'') s tr1
                | Some ls \<Rightarrow>
                    (let r = perform e tr1 (Session_send text_value)
                     in case fst r of
                          None \<Rightarrow> (Continue, s, snd r)
                        | Some x \<Rightarrow> loop_except x s (snd r)))
          else (Continue, s, tr))"

text \<open>One pass through the body of \<^verbatim>\<open>while session.is_active\<close>.\<close>

definition handle_client_message ::
  "env \<Rightarrow> GeminiSession \<Rightarrow> event list \<Rightarrow> inbound \<Rightarrow> flow \<times> GeminiSession \<times> event list"
where
  "handle_client_message e s tr i =
     (case i of
        Inbound_raises x \<Rightarrow> loop_except x s tr
      | Inbound_malformed \<Rightarrow> (Break, s, tr @ [Log ERROR ''Error processing client message: {e}''])
      | Inbound_json data \<Rightarrow>
          (case py_get data ''type'' JNull of
             Inl x \<Rightarrow> loop_except x s tr
           | Inr ty \<Rightarrow>
               if ty = JStr ''audio_chunk'' then on_audio_chunk e s tr data
               else if ty = JStr ''end_of_turn'' then on_end_of_turn e s tr
               else if ty = JStr ''text_message'' then on_text_message e s tr data
               else if ty = JStr ''stop'' then (Break, s, tr @ [Log INFO ''Client requested stop''])
               else (Continue, s, tr)))"

text \<open>
  The loop over the client's messages. \<open>Awaiting_client\<close>: the messages given are used up
  and the loop waits in \<^verbatim>\<open>receive_text\<close>; \<open>Loop_ended\<close>: control is past the loop.
\<close>

datatype loop_status = Loop_ended | Awaiting_client

fun inbound_loop ::
  "env \<Rightarrow> GeminiSession \<Rightarrow> event list \<Rightarrow> arrival list
   \<Rightarrow> loop_status \<times> GeminiSession \<times> event list"
where
  "inbound_loop e s tr [] =
     (if is_active s then (Awaiting_client, s, tr) else (Loop_ended, s, tr))"
| "inbound_loop e s tr (a # as) =
     (if \<not> is_active s then (Loop_ended, s, tr)
      else
        (case handle_client_message e (clear_if (cleared_while_receiving a) s) tr (inbound a) of
           (Break, s1, tr1) \<Rightarrow> (Loop_ended, s1, tr1)
         | (Continue, s1, tr1) \<Rightarrow>
             inbound_loop e (clear_if (cleared_while_handling a) s1) tr1 as))"

definition error_message :: "exn \<Rightarrow> jval" where
  "error_message x = JObj [(''type'', JStr ''error''), (''message'', JStr (str_exn x))]"

datatype handler_status = Handler_returned | Handler_awaiting

definition finally_block ::
  "env \<Rightarrow> GeminiSession \<Rightarrow> event list \<Rightarrow> handler_status \<times> GeminiSession \<times> event list"
where
  "finally_block e s tr =
     (let r = close e s tr
      in (Handler_returned, fst r, snd r @ [Log INFO ''WebSocket connection closed'']))"

text \<open>The outer \<^verbatim>\<open>except Exception\<close>: the error message is sent inside \<^verbatim>\<open>try ... except: pass\<close>.\<close>

definition endpoint_except ::
  "env \<Rightarrow> exn \<Rightarrow> GeminiSession \<Rightarrow> event list \<Rightarrow> handler_status \<times> GeminiSession \<times> event list"
where
  "endpoint_except e x s tr =
     (let r = perform e (tr @ [Log ERROR ''WebSocket error: {e}'']) (Ws_send_json (error_message x))
      in finally_block e s (snd r))"

text \<open>
  The handler once \<^verbatim>\<open>websocket.accept()\<close> has returned. The trace holds the events of the
  handler's own control flow; the outbound task it starts is \<open>receive_responses\<close> above,
  whose writes to the shared flag reach the handler through the arrivals.
\<close>

definition websocket_endpoint ::
  "env \<Rightarrow> arrival list \<Rightarrow> handler_status \<times> GeminiSession \<times> event list"
where
  "websocket_endpoint e arrivals =
     (case connect e init_session
             [Log INFO ''WebSocket connection established from {client_address}''] of
        (Inl x, s1, tr1) \<Rightarrow> endpoint_except e x s1 tr1
      | (Inr b, s1, tr1) \<Rightarrow>
          (case inbound_loop e s1 (tr1 @ [Create_task]) arrivals of
             (Awaiting_client, s2, tr2) \<Rightarrow> (Handler_awaiting, s2, tr2)
           | (Loop_ended, s2, tr2) \<Rightarrow> finally_block e s2 (tr2 @ [Cancel_task])))"

section \<open>Observations on traces\<close>

text \<open>The messages handed to \<^verbatim>\<open>client_ws.send_json\<close>, in order, delivered or not.\<close>

fun client_sends :: "event list \<Rightarrow> jval list" where
  "client_sends [] = []"
| "client_sends (Call (Ws_send_json m) r # tr) = m # client_sends tr"
| "client_sends (ev # tr) = client_sends tr"

text \<open>The calls made on the upstream session or its manager, with their outcome.\<close>

fun is_upstream_call :: "event \<Rightarrow> bool" where
  "is_upstream_call (Call (Ws_send_json m) r) = False"
| "is_upstream_call (Call c r) = True"
| "is_upstream_call ev = False"

definition upstream_calls :: "event list \<Rightarrow> event list" where
  "upstream_calls tr = filter is_upstream_call tr"

fun is_release :: "event \<Rightarrow> bool" where
  "is_release (Call Session_manager_aexit r) = True"
| "is_release ev = False"

definition releases :: "event list \<Rightarrow> nat" where
  "releases tr = length (filter is_release tr)"

fun is_delivered :: "event \<Rightarrow> bool" where
  "is_delivered (Call (Ws_send_json m) None) = True"
| "is_delivered ev = False"

text \<open>The messages the client receives: those whose \<^verbatim>\<open>send_json\<close> returned.\<close>

definition client_receives :: "event list \<Rightarrow> jval list" where
  "client_receives tr = client_sends (filter is_delivered tr)"

text \<open>The events that are neither a log record nor a call.\<close>

fun is_marker :: "event \<Rightarrow> bool" where
  "is_marker Create_task = True"
| "is_marker Cancel_task = True"
| "is_marker Close_called = True"
| "is_marker ev = False"

section \<open>Sequences of calls, and the translation the specification describes\<close>

text \<open>\<^verbatim>\<open>close()\<close> called twice in a row.\<close>

definition close_twice :: "env \<Rightarrow> GeminiSession \<Rightarrow> event list \<Rightarrow> GeminiSession \<times> event list" where
  "close_twice e s tr = close e (fst (close e s tr)) (snd (close e s tr))"

text \<open>\<^verbatim>\<open>send_audio\<close> called on each chunk of a list in turn.\<close>

fun send_audio_seq ::
  "env \<Rightarrow> GeminiSession \<Rightarrow> event list \<Rightarrow> jval list \<Rightarrow> GeminiSession \<times> event list"
where
  "send_audio_seq e s tr [] = (s, tr)"
| "send_audio_seq e s tr (c # cs) =
     send_audio_seq e (fst (send_audio e s tr c)) (snd (send_audio e s tr c)) cs"

text \<open>The methods of \<^verbatim>\<open>GeminiSession\<close>, called in any order on one session.\<close>

datatype operation =
    Op_connect
  | Op_send_audio jval
  | Op_handle_tool_call ToolCall
  | Op_receive_responses "turn list"
  | Op_close

fun apply_operation ::
  "env \<Rightarrow> GeminiSession \<times> event list \<Rightarrow> operation \<Rightarrow> GeminiSession \<times> event list"
where
  "apply_operation e (s, tr) Op_connect = snd (connect e s tr)"
| "apply_operation e (s, tr) (Op_send_audio c) = send_audio e s tr c"
| "apply_operation e (s, tr) (Op_handle_tool_call tc) = (s, handle_tool_call e s tr tc)"
| "apply_operation e (s, tr) (Op_receive_responses ts) = snd (receive_responses e s tr ts)"
| "apply_operation e (s, tr) Op_close = close e s tr"

definition run_operations ::
  "env \<Rightarrow> GeminiSession \<times> event list \<Rightarrow> operation list \<Rightarrow> GeminiSession \<times> event list"
where
  "run_operations e st ops = foldl (apply_operation e) st ops"

text \<open>
  The translation of one upstream event as the specification words it: every populated
  field gives its message, in the order tool call, audio data, text, input transcript,
  output transcript, turn complete, interrupted.
\<close>

definition spec_tool_messages :: "LiveServerMessage \<Rightarrow> jval list" where
  "spec_tool_messages r =
     (case tool_call r of None \<Rightarrow> [] | Some tc \<Rightarrow> map tool_call_message (function_calls tc))"

definition spec_audio_messages :: "env \<Rightarrow> LiveServerMessage \<Rightarrow> jval list" where
  "spec_audio_messages e r =
     (case response_data r of
        None \<Rightarrow> []
      | Some d \<Rightarrow> if d = [] then [] else [audio_response_message e d])"

definition spec_text_messages :: "LiveServerMessage \<Rightarrow> jval list" where
  "spec_text_messages r =
     (case response_text r of
        None \<Rightarrow> []
      | Some t \<Rightarrow> if t = [] then [] else [transcription_message (JStr t)])"

definition spec_content_messages :: "ServerContent \<Rightarrow> jval list" where
  "spec_content_messages sc =
     (case input_transcription sc of
        None \<Rightarrow> []
      | Some t \<Rightarrow> [transcription_message (json_of_text (transcription_text t))])
     @ (case output_transcription sc of
          None \<Rightarrow> []
        | Some t \<Rightarrow> [ai_transcription_message (json_of_text (transcription_text t))])
     @ (if turn_complete sc = Some True then [turn_complete_message] else [])
     @ (if interrupted sc = Some True then [interrupted_message] else [])"

definition spec_translation :: "env \<Rightarrow> LiveServerMessage \<Rightarrow> jval list" where
  "spec_translation e r =
     spec_tool_messages r @ spec_audio_messages e r @ spec_text_messages r
     @ (case server_content r of None \<Rightarrow> [] | Some sc \<Rightarrow> spec_content_messages sc)"

section \<open>Concrete inputs\<close>

text \<open>
  An environment in which no call raises. Its \<open>b64decode\<close> and \<open>b64encode\<close> agree with
  Python's \<^verbatim>\<open>base64\<close> on the payloads used below: the empty string, and \<^verbatim>\<open>AQID\<close> for the
  bytes 1, 2, 3.
\<close>

definition sample_b64decode :: "string \<Rightarrow> exn + bytes" where
  "sample_b64decode p =
     (if p = [] then Inr []
      else if p = ''AQID'' then Inr [1, 2, 3]
      else Inl (Exn OtherException ''Incorrect padding''))"

definition sample_b64encode :: "bytes \<Rightarrow> string" where
  "sample_b64encode d = (if d = [1, 2, 3] then ''AQID'' else [])"

definition calm_env :: env where
  "calm_env = \<lparr>raises = (\<lambda>tr c. None), b64decode = sample_b64decode, b64encode = sample_b64encode\<rparr>"

text \<open>An environment in which every call on the upstream session raises.\<close>

definition upstream_down_env :: env where
  "upstream_down_env =
     \<lparr>raises = (\<lambda>tr c. case c of Ws_send_json m \<Rightarrow> None
                             | _ \<Rightarrow> Some (Exn OtherException ''upstream unavailable'')),
      b64decode = sample_b64decode, b64encode = sample_b64encode\<rparr>"

text \<open>The session as a successful \<^verbatim>\<open>connect()\<close> leaves it.\<close>

definition connected_session :: GeminiSession where
  "connected_session =
     \<lparr>session = Some Live_session, session_manager = Some Session_manager,
      is_active = True, receive_task = None\<rparr>"

definition audio_chunk_message :: "string \<Rightarrow> jval" where
  "audio_chunk_message p = JObj [(''type'', JStr ''audio_chunk''), (''data'', JStr p)]"

definition end_of_turn_message :: jval where
  "end_of_turn_message = JObj [(''type'', JStr ''end_of_turn'')]"

definition stop_message :: jval where
  "stop_message = JObj [(''type'', JStr ''stop'')]"

definition quiet_arrival :: "inbound \<Rightarrow> arrival" where
  "quiet_arrival i =
     \<lparr>cleared_while_receiving = False, inbound = i, cleared_while_handling = False\<rparr>"

definition quiet_delivery :: "LiveServerMessage \<Rightarrow> delivery" where
  "quiet_delivery r = \<lparr>cleared_meanwhile = False, delivered = r\<rparr>"

text \<open>The events one function call of a batch leaves when its notification is delivered.\<close>

definition tool_events :: "FunctionCall \<Rightarrow> event list" where
  "tool_events fc =
     [Log INFO ''Tool call received: {fc.name} with args: {fc.args}'',
      Call (Ws_send_json (tool_call_message fc)) None]"

text \<open>The client's websocket accepts every message.\<close>

definition websocket_ok :: "env \<Rightarrow> bool" where
  "websocket_ok e = (\<forall>h m. raises e h (Ws_send_json m) = None)"

definition empty_content :: ServerContent where
  "empty_content =
     \<lparr>input_transcription = None, output_transcription = None, model_turn = False,
      turn_complete = None, interrupted = None\<rparr>"

text \<open>An upstream event that carries a tool call and nothing else.\<close>

definition tool_only_event :: "ToolCall \<Rightarrow> LiveServerMessage" where
  "tool_only_event tc =
     \<lparr>tool_call = Some tc, response_data = None, response_text = None,
      server_content = Some empty_content\<rparr>"

definition sample_calls :: "FunctionCall list" where
  "sample_calls =
     [\<lparr>fc_id = ''call-1'', fc_name = ''summarize_response'',
       fc_args = JObj [(''topic'', JStr ''dns'')]\<rparr>,
      \<lparr>fc_id = ''call-2'', fc_name = ''adapt_tone'', fc_args = JNull\<rparr>]"

definition transcript_and_turn_complete :: LiveServerMessage where
  "transcript_and_turn_complete =
     \<lparr>tool_call = None, response_data = None, response_text = None,
      server_content = Some
        \<lparr>input_transcription = None,
         output_transcription = Some \<lparr>transcription_text = Some ''hello''\<rparr>,
         model_turn = False, turn_complete = Some True, interrupted = None\<rparr>\<rparr>"

text \<open>An upstream event with audio data and no \<^verbatim>\<open>server_content\<close>.\<close>

definition audio_only_event :: LiveServerMessage where
  "audio_only_event =
     \<lparr>tool_call = None, response_data = Some [1, 2, 3], response_text = None,
      server_content = None\<rparr>"

text \<open>The events of task control and of cleanup: the markers and the release call.\<close>

definition is_cleanup :: "event \<Rightarrow> bool" where
  "is_cleanup ev = (is_marker ev \<or> is_release ev)"

text \<open>
  The arrivals after which control leaves the loop: an exception of \<^verbatim>\<open>receive_text\<close>
  (a disconnect among them), a text that is not JSON, a decoded value that is not a dict,
  and a \<^verbatim>\<open>stop\<close> message.
\<close>

definition ends_loop :: "inbound \<Rightarrow> bool" where
  "ends_loop i =
     (case i of
        Inbound_raises x \<Rightarrow> True
      | Inbound_malformed \<Rightarrow> True
      | Inbound_json d \<Rightarrow>
          (case py_get d ''type'' JNull of Inl x \<Rightarrow> True | Inr ty \<Rightarrow> ty = JStr ''stop''))"

section \<open>Basic facts\<close>

lemma str_nat_sample_rate: "str_nat SAMPLE_RATE = ''16000''"
  by (simp add: SAMPLE_RATE_def str_nat.simps [of 16000] str_nat.simps [of 1600]
      str_nat.simps [of 160] str_nat.simps [of 16] str_nat.simps [of 1] str_nat.simps [of "Suc 0"])

lemma send_audio_dropped:
  "session s = None \<or> \<not> is_active s \<Longrightarrow>
   send_audio e s tr c = (s, tr @ [Log WARNING ''Cannot send audio - session not active''])"
  by (simp add: send_audio_def)

lemma close_state: "fst (close e s tr) = s\<lparr>is_active := False\<rparr>"
  by (simp add: close_def Let_def split: option.splits)

lemma close_releases:
  "releases (snd (close e s tr)) = releases tr + (if session_manager s = None then 0 else 1)"
  by (simp add: close_def Let_def perform_def releases_def split: option.splits)

lemma releases_Nil: "releases [] = 0"
  by (simp add: releases_def)

section \<open>close() called twice\<close>

text \<open>
  C1, as the code has it. \<^verbatim>\<open>close()\<close> has no exception among its results: its first
  statement is an assignment and the release is inside \<^verbatim>\<open>try ... except Exception\<close>. It
  never assigns \<^verbatim>\<open>session_manager\<close>, so a second call finds the manager still set and
  calls \<^verbatim>\<open>__aexit__\<close> on it again: each call of \<^verbatim>\<open>close()\<close> on a session that acquired a
  manager adds one release, and none on a session that did not. The second call leaves the
  state as the first left it, with \<^verbatim>\<open>is_active\<close> false.
\<close>

theorem close_twice_releases_again:
  "fst (close_twice e s tr) = fst (close e s tr)
   \<and> \<not> is_active (fst (close_twice e s tr))
   \<and> releases (snd (close e s tr)) = releases tr + (if session_manager s = None then 0 else 1)
   \<and> releases (snd (close_twice e s tr)) =
       releases (snd (close e s tr)) + (if session_manager s = None then 0 else 1)"
  by (simp add: close_twice_def close_state close_releases)

theorem close_twice_releases_again_witness:
  "fst (close_twice calm_env init_session []) = fst (close calm_env init_session [])
   \<and> \<not> is_active (fst (close_twice calm_env init_session []))
   \<and> releases (snd (close calm_env init_session [])) = 0
   \<and> releases (snd (close_twice calm_env init_session [])) = 0"
  using close_twice_releases_again [of calm_env init_session "[]"]
  by (auto simp: init_session_def releases_Nil)

text \<open>
  C1 as stated fails: on a connected session the first \<^verbatim>\<open>close()\<close> releases the handle and
  the second releases it a second time.
\<close>

theorem close_twice_counterexample:
  "releases (snd (close calm_env connected_session [])) = 1
   \<and> releases (snd (close_twice calm_env connected_session [])) = 2"
  by (simp add: close_twice_def close_def perform_def calm_env_def connected_session_def
      releases_def)

section \<open>Audio sent to an inactive session\<close>

text \<open>
  C4: while the session is not active, or has no upstream session, every call of
  \<^verbatim>\<open>send_audio\<close> returns after one warning: over any list of chunks the state is
  unchanged, the trace grows by one warning for each chunk, and no call reaches the
  upstream. No exception is among the results of \<^verbatim>\<open>send_audio\<close>.
\<close>

theorem send_audio_inactive_forwards_nothing:
  assumes "session s = None \<or> \<not> is_active s"
  shows "send_audio_seq e s tr cs =
           (s, tr @ replicate (length cs) (Log WARNING ''Cannot send audio - session not active''))
         \<and> upstream_calls (snd (send_audio_seq e s tr cs)) = upstream_calls tr"
proof -
  have seq: "send_audio_seq e s tr cs =
      (s, tr @ replicate (length cs) (Log WARNING ''Cannot send audio - session not active''))"
    using assms
  proof (induction cs arbitrary: tr)
    case Nil
    show ?case by simp
  next
    case (Cons c cs)
    have "send_audio e s tr c = (s, tr @ [Log WARNING ''Cannot send audio - session not active''])"
      using Cons.prems by (rule send_audio_dropped)
    then show ?case
      using Cons.IH [OF Cons.prems] by (simp add: replicate_app_Cons_same)
  qed
  show ?thesis
    by (simp add: seq upstream_calls_def)
qed

theorem send_audio_inactive_forwards_nothing_witness:
  "(session init_session = None \<or> \<not> is_active init_session)
   \<and> send_audio_seq calm_env init_session [] [JStr ''AQID'', JStr ''AQID''] =
       (init_session, [Log WARNING ''Cannot send audio - session not active'',
                       Log WARNING ''Cannot send audio - session not active''])
   \<and> upstream_calls (snd (send_audio_seq calm_env init_session [] [JStr ''AQID'', JStr ''AQID''])) = []"
  using send_audio_inactive_forwards_nothing
          [of init_session calm_env "[]" "[JStr ''AQID'', JStr ''AQID'']"]
  by (simp add: init_session_def upstream_calls_def)

section \<open>Translation of upstream events\<close>

lemma perform_ws_ok:
  "websocket_ok e \<Longrightarrow> perform e tr (Ws_send_json m) = (None, tr @ [Call (Ws_send_json m) None])"
  by (simp add: websocket_ok_def perform_def)

lemma client_sends_append: "client_sends (xs @ ys) = client_sends xs @ client_sends ys"
  by (induction xs rule: client_sends.induct) simp_all

lemma client_sends_tool_events: "client_sends (tool_events fc) = [tool_call_message fc]"
  by (simp add: tool_events_def)

lemma client_sends_concat_tool_events:
  "client_sends (concat (map tool_events fcs)) = map tool_call_message fcs"
  by (induction fcs) (simp_all add: client_sends_append client_sends_tool_events)

lemma notify_tools_ok:
  assumes "websocket_ok e"
  shows "notify_tools e tr fcs acc =
           (Inr (acc @ map function_response fcs), tr @ concat (map tool_events fcs))"
proof (induction fcs arbitrary: tr acc)
  case Nil
  show ?case by simp
next
  case (Cons fc fcs)
  show ?case
    by (simp add: Let_def perform_ws_ok [OF assms] Cons.IH tool_events_def)
qed

lemma handle_tool_call_ok:
  assumes "websocket_ok e" and "session s = Some ls"
  shows "handle_tool_call e s tr tc =
           tr @ concat (map tool_events (function_calls tc))
           @ [Call (Send_tool_response (map function_response (function_calls tc)))
                (raises e (tr @ concat (map tool_events (function_calls tc)))
                   (Send_tool_response (map function_response (function_calls tc)))),
              if raises e (tr @ concat (map tool_events (function_calls tc)))
                   (Send_tool_response (map function_response (function_calls tc))) = None
              then Log INFO ''Sent tool responses''
              else Log ERROR ''Error handling tool call: {e}'']"
  using assms(2)
  by (simp add: handle_tool_call_def Let_def notify_tools_ok [OF assms(1)] perform_def
      split: option.splits)

lemma handle_tool_call_sends:
  assumes "websocket_ok e"
  shows "client_sends (handle_tool_call e s tr tc) =
           client_sends tr @ map tool_call_message (function_calls tc)"
  by (simp add: handle_tool_call_def Let_def notify_tools_ok [OF assms] perform_def
      client_sends_append client_sends_concat_tool_events split: option.splits)

lemma tool_call_step_sends:
  assumes "websocket_ok e"
  shows "fst (tool_call_step e s r tr) = None
         \<and> client_sends (snd (tool_call_step e s r tr)) = client_sends tr @ spec_tool_messages r"
  by (simp add: tool_call_step_def spec_tool_messages_def handle_tool_call_sends [OF assms]
      split: option.splits)

lemma data_step_sends:
  assumes "websocket_ok e"
  shows "fst (data_step e r tr) = None
         \<and> client_sends (snd (data_step e r tr)) = client_sends tr @ spec_audio_messages e r"
  by (simp add: data_step_def spec_audio_messages_def and_then_def perform_ws_ok [OF assms]
      client_sends_append split: option.splits)

lemma text_step_sends:
  assumes "websocket_ok e"
  shows "fst (text_step e r tr) = None
         \<and> client_sends (snd (text_step e r tr)) = client_sends tr @ spec_text_messages r"
  by (simp add: text_step_def spec_text_messages_def perform_ws_ok [OF assms]
      client_sends_append split: option.splits)

lemma content_steps_sends:
  assumes "websocket_ok e" and "server_content r = Some sc"
  shows "fst (and_then (input_transcription_step e r tr)
               (\<lambda>tr4. and_then (output_transcription_step e r tr4) (server_content_step e r))) = None
         \<and> client_sends (snd (and_then (input_transcription_step e r tr)
               (\<lambda>tr4. and_then (output_transcription_step e r tr4) (server_content_step e r))))
           = client_sends tr @ spec_content_messages sc"
  using assms(2)
  by (simp add: input_transcription_step_def output_transcription_step_def
      server_content_step_def model_turn_step_def turn_complete_step_def interrupted_step_def
      spec_content_messages_def and_then_def perform_ws_ok [OF assms(1)] client_sends_append
      split: option.splits)

lemma first_steps_sends:
  assumes "websocket_ok e"
  shows "fst (and_then (tool_call_step e s r tr)
               (\<lambda>tr1. and_then (data_step e r tr1) (text_step e r))) = None
         \<and> client_sends (snd (and_then (tool_call_step e s r tr)
               (\<lambda>tr1. and_then (data_step e r tr1) (text_step e r))))
           = client_sends tr @ spec_tool_messages r @ spec_audio_messages e r @ spec_text_messages r"
  by (simp add: and_then_def tool_call_step_sends [OF assms] data_step_sends [OF assms]
      text_step_sends [OF assms])

lemma and_then_assoc:
  "and_then (and_then r f) g = and_then r (\<lambda>tr. and_then (f tr) g)"
  by (simp add: and_then_def split: option.splits)

lemma process_response_split:
  "process_response e s tr r =
     and_then (and_then (tool_call_step e s r tr)
                 (\<lambda>tr1. and_then (data_step e r tr1) (text_step e r)))
       (\<lambda>tr3. and_then (input_transcription_step e r tr3)
          (\<lambda>tr4. and_then (output_transcription_step e r tr4) (server_content_step e r)))"
  by (simp add: process_response_def and_then_assoc)

lemma process_response_sends:
  assumes "websocket_ok e"
  shows "client_sends (snd (process_response e s tr r)) = client_sends tr @ spec_translation e r"
proof (cases "server_content r")
  case None
  then show ?thesis
    using first_steps_sends [OF assms, of s r tr]
    by (simp add: process_response_split spec_translation_def and_then_def
        input_transcription_step_def)
next
  case (Some sc)
  then show ?thesis
    using first_steps_sends [OF assms, of s r tr]
      content_steps_sends [OF assms Some]
    by (simp add: process_response_split spec_translation_def and_then_def)
qed


lemma websocket_ok_calm: "websocket_ok calm_env"
  by (simp add: websocket_ok_def calm_env_def)

lemma websocket_ok_upstream_down: "websocket_ok upstream_down_env"
  by (simp add: websocket_ok_def upstream_down_env_def)

text \<open>
  C2: the fields of an upstream event are tested one after the other, none excluding
  another. When the client's websocket accepts every message, the messages sent while one
  event is processed are those of \<open>spec_translation\<close>, in its order: one \<^verbatim>\<open>tool_call\<close>
  for each function call, then \<^verbatim>\<open>audio_response\<close>, \<^verbatim>\<open>transcription\<close> for the text,
  \<^verbatim>\<open>transcription\<close> for the input transcript, \<^verbatim>\<open>ai_transcription\<close> for the output
  transcript, \<^verbatim>\<open>turn_complete\<close> and \<^verbatim>\<open>interrupted\<close>. A field counts as populated when
  Python takes it for true (empty data, empty text and a false flag do not). In particular
  an event with an output transcript and the turn-complete flag, and nothing else, gives
  \<^verbatim>\<open>ai_transcription\<close> then \<^verbatim>\<open>turn_complete\<close>.
\<close>

theorem event_translation_order:
  assumes "websocket_ok e"
  shows "client_sends (snd (process_response e s tr r)) = client_sends tr @ spec_translation e r
         \<and> (tool_call r = None \<and> response_data r = None \<and> response_text r = None
              \<and> server_content r = Some sc \<and> input_transcription sc = None
              \<and> output_transcription sc = Some t \<and> turn_complete sc = Some True
              \<and> interrupted sc \<noteq> Some True
            \<longrightarrow> client_sends (snd (process_response e s tr r)) =
                  client_sends tr @ [ai_transcription_message (json_of_text (transcription_text t)),
                                     turn_complete_message])"
  by (simp add: process_response_sends [OF assms] spec_translation_def spec_tool_messages_def
      spec_audio_messages_def spec_text_messages_def spec_content_messages_def)

theorem event_translation_order_witness:
  "websocket_ok calm_env
   \<and> client_sends (snd (process_response calm_env connected_session []
                         transcript_and_turn_complete)) =
       [ai_transcription_message (JStr ''hello''), turn_complete_message]"
  using event_translation_order [OF websocket_ok_calm, of connected_session "[]"
          transcript_and_turn_complete]
  by (simp add: websocket_ok_calm transcript_and_turn_complete_def spec_translation_def
      spec_tool_messages_def spec_audio_messages_def spec_text_messages_def
      spec_content_messages_def json_of_text_def)

lemma notify_tools_shape:
  "\<exists>ext. snd (notify_tools e tr fcs acc) = tr @ ext
         \<and> ((\<exists>fr. fst (notify_tools e tr fcs acc) = Inr fr)
              \<longrightarrow> (\<forall>c x. Call c (Some x) \<notin> set ext))"
proof (induction fcs arbitrary: tr acc)
  case Nil
  show ?case by simp
next
  case (Cons fc fcs)
  let ?tr1 = "tr @ [Log INFO ''Tool call received: {fc.name} with args: {fc.args}'']"
  let ?c = "Ws_send_json (tool_call_message fc)"
  show ?case
  proof (cases "raises e ?tr1 ?c")
    case (Some x)
    then show ?thesis by (simp add: Let_def perform_def)
  next
    case None
    obtain ext where ext: "snd (notify_tools e (?tr1 @ [Call ?c None]) fcs (acc @ [function_response fc]))
          = (?tr1 @ [Call ?c None]) @ ext"
      and ok: "(\<exists>fr. fst (notify_tools e (?tr1 @ [Call ?c None]) fcs (acc @ [function_response fc])) = Inr fr)
          \<longrightarrow> (\<forall>c x. Call c (Some x) \<notin> set ext)"
      using Cons.IH by blast
    have "snd (notify_tools e tr (fc # fcs) acc)
            = tr @ ([Log INFO ''Tool call received: {fc.name} with args: {fc.args}'', Call ?c None] @ ext)"
      using None ext by (simp add: Let_def perform_def)
    moreover have "(\<exists>fr. fst (notify_tools e tr (fc # fcs) acc) = Inr fr)
        \<longrightarrow> (\<forall>c x. Call c (Some x)
               \<notin> set ([Log INFO ''Tool call received: {fc.name} with args: {fc.args}'', Call ?c None] @ ext))"
      using None ok by (simp add: Let_def perform_def)
    ultimately show ?thesis by blast
  qed
qed

lemma handle_tool_call_logged:
  "last (handle_tool_call e s tr tc) = Log ERROR ''Error handling tool call: {e}''
   \<or> (last (handle_tool_call e s tr tc) = Log INFO ''Sent tool responses''
       \<and> (\<forall>c x. Call c (Some x) \<notin> set (drop (length tr) (handle_tool_call e s tr tc))))"
proof -
  obtain ext where ext: "snd (notify_tools e tr (function_calls tc) []) = tr @ ext"
    and ok: "(\<exists>fr. fst (notify_tools e tr (function_calls tc) []) = Inr fr)
          \<longrightarrow> (\<forall>c x. Call c (Some x) \<notin> set ext)"
    using notify_tools_shape by blast
  show ?thesis
  proof (cases "fst (notify_tools e tr (function_calls tc) [])")
    case (Inl x)
    then show ?thesis by (simp add: handle_tool_call_def Let_def)
  next
    case (Inr fr)
    then have clean: "\<forall>c x. Call c (Some x) \<notin> set ext"
      using ok by blast
    show ?thesis
      using Inr ext clean
      by (simp add: handle_tool_call_def Let_def perform_def split: option.splits)
  qed
qed

lemma tool_only_continues:
  assumes "is_active s"
  shows "consume_turn e s tr (quiet_delivery (tool_only_event tc) # ds)
           = consume_turn e s (handle_tool_call e s tr tc) ds"
  using assms
  by (simp add: quiet_delivery_def clear_if_def Let_def process_response_def and_then_def
      tool_only_event_def empty_content_def tool_call_step_def data_step_def text_step_def
      input_transcription_step_def output_transcription_step_def server_content_step_def
      model_turn_step_def turn_complete_step_def interrupted_step_def)

section \<open>Tool calls\<close>

text \<open>
  C5: for a batch of N function calls, when the client's websocket accepts every message
  and the session is open, \<^verbatim>\<open>handle_tool_call\<close> logs and notifies each call in turn (N
  \<^verbatim>\<open>tool_call\<close> messages with the call's name and arguments) and then makes one
  \<^verbatim>\<open>send_tool_response\<close> call with N responses whose ids and names are those of the
  requests, in order. Whatever fails, no exception leaves \<^verbatim>\<open>handle_tool_call\<close> (it has none
  among its results): its last event is the error log, unless every call it made
  returned and it logged the success; and the loop over the turn's events goes on with
  the next event.
\<close>

theorem tool_call_batch:
  "(websocket_ok e \<and> session s = Some ls \<longrightarrow>
      handle_tool_call e s tr tc =
        tr @ concat (map tool_events (function_calls tc))
        @ [Call (Send_tool_response (map function_response (function_calls tc)))
             (raises e (tr @ concat (map tool_events (function_calls tc)))
                (Send_tool_response (map function_response (function_calls tc)))),
           if raises e (tr @ concat (map tool_events (function_calls tc)))
                (Send_tool_response (map function_response (function_calls tc))) = None
           then Log INFO ''Sent tool responses''
           else Log ERROR ''Error handling tool call: {e}''])
   \<and> client_sends (concat (map tool_events (function_calls tc)))
       = map tool_call_message (function_calls tc)
   \<and> length (map function_response (function_calls tc)) = length (function_calls tc)
   \<and> map fr_id (map function_response (function_calls tc)) = map fc_id (function_calls tc)
   \<and> map fr_name (map function_response (function_calls tc)) = map fc_name (function_calls tc)
   \<and> (last (handle_tool_call e s tr tc) = Log ERROR ''Error handling tool call: {e}''
       \<or> (last (handle_tool_call e s tr tc) = Log INFO ''Sent tool responses''
           \<and> (\<forall>c x. Call c (Some x) \<notin> set (drop (length tr) (handle_tool_call e s tr tc)))))
   \<and> (is_active s \<longrightarrow>
        consume_turn e s tr (quiet_delivery (tool_only_event tc) # ds)
          = consume_turn e s (handle_tool_call e s tr tc) ds)"
proof -
  have a: "websocket_ok e \<and> session s = Some ls \<longrightarrow>
      handle_tool_call e s tr tc =
        tr @ concat (map tool_events (function_calls tc))
        @ [Call (Send_tool_response (map function_response (function_calls tc)))
             (raises e (tr @ concat (map tool_events (function_calls tc)))
                (Send_tool_response (map function_response (function_calls tc)))),
           if raises e (tr @ concat (map tool_events (function_calls tc)))
                (Send_tool_response (map function_response (function_calls tc))) = None
           then Log INFO ''Sent tool responses''
           else Log ERROR ''Error handling tool call: {e}'']"
    using handle_tool_call_ok by blast
  have b: "map fr_id (map function_response (function_calls tc)) = map fc_id (function_calls tc)"
    by (simp add: function_response_def)
  have c: "map fr_name (map function_response (function_calls tc)) = map fc_name (function_calls tc)"
    by (simp add: function_response_def)
  have d: "is_active s \<longrightarrow>
        consume_turn e s tr (quiet_delivery (tool_only_event tc) # ds)
          = consume_turn e s (handle_tool_call e s tr tc) ds"
    using tool_only_continues by blast
  show ?thesis
    using a b c d handle_tool_call_logged [of e s tr tc]
      client_sends_concat_tool_events [of "function_calls tc"]
    by simp
qed

theorem tool_call_batch_witness:
  "websocket_ok calm_env \<and> session connected_session = Some Live_session
   \<and> is_active connected_session
   \<and> handle_tool_call calm_env connected_session [] \<lparr>function_calls = sample_calls\<rparr> =
       [Log INFO ''Tool call received: {fc.name} with args: {fc.args}'',
        Call (Ws_send_json (JObj [(''type'', JStr ''tool_call''),
                                  (''tool'', JStr ''summarize_response''),
                                  (''args'', JObj [(''topic'', JStr ''dns'')])])) None,
        Log INFO ''Tool call received: {fc.name} with args: {fc.args}'',
        Call (Ws_send_json (JObj [(''type'', JStr ''tool_call''),
                                  (''tool'', JStr ''adapt_tone''),
                                  (''args'', JNull)])) None,
        Call (Send_tool_response
               [\<lparr>fr_id = ''call-1'', fr_name = ''summarize_response'',
                 fr_response = JObj [(''result'', JStr ''ok''), (''scheduling'', JStr ''SILENT'')]\<rparr>,
                \<lparr>fr_id = ''call-2'', fr_name = ''adapt_tone'',
                 fr_response = JObj [(''result'', JStr ''ok''), (''scheduling'', JStr ''SILENT'')]\<rparr>])
          None,
        Log INFO ''Sent tool responses'']
   \<and> consume_turn calm_env connected_session []
         [quiet_delivery (tool_only_event \<lparr>function_calls = sample_calls\<rparr>)]
       = (Exhausted, connected_session,
          handle_tool_call calm_env connected_session [] \<lparr>function_calls = sample_calls\<rparr>)"
proof -
  have ok: "websocket_ok calm_env"
    by (rule websocket_ok_calm)
  have s: "session connected_session = Some Live_session"
    by (simp add: connected_session_def)
  have a: "is_active connected_session"
    by (simp add: connected_session_def)
  note t = tool_call_batch [of calm_env connected_session Live_session "[]"
      "\<lparr>function_calls = sample_calls\<rparr>" "[]"]
  have "handle_tool_call calm_env connected_session [] \<lparr>function_calls = sample_calls\<rparr> =
       [] @ concat (map tool_events (function_calls \<lparr>function_calls = sample_calls\<rparr>))
        @ [Call (Send_tool_response (map function_response (function_calls \<lparr>function_calls = sample_calls\<rparr>)))
             (raises calm_env ([] @ concat (map tool_events (function_calls \<lparr>function_calls = sample_calls\<rparr>)))
                (Send_tool_response (map function_response (function_calls \<lparr>function_calls = sample_calls\<rparr>)))),
           if raises calm_env ([] @ concat (map tool_events (function_calls \<lparr>function_calls = sample_calls\<rparr>)))
                (Send_tool_response (map function_response (function_calls \<lparr>function_calls = sample_calls\<rparr>))) = None
           then Log INFO ''Sent tool responses''
           else Log ERROR ''Error handling tool call: {e}'']"
    using t [THEN conjunct1] ok s by blast
  then have trace: "handle_tool_call calm_env connected_session [] \<lparr>function_calls = sample_calls\<rparr> =
       [Log INFO ''Tool call received: {fc.name} with args: {fc.args}'',
        Call (Ws_send_json (JObj [(''type'', JStr ''tool_call''),
                                  (''tool'', JStr ''summarize_response''),
                                  (''args'', JObj [(''topic'', JStr ''dns'')])])) None,
        Log INFO ''Tool call received: {fc.name} with args: {fc.args}'',
        Call (Ws_send_json (JObj [(''type'', JStr ''tool_call''),
                                  (''tool'', JStr ''adapt_tone''),
                                  (''args'', JNull)])) None,
        Call (Send_tool_response
               [\<lparr>fr_id = ''call-1'', fr_name = ''summarize_response'',
                 fr_response = JObj [(''result'', JStr ''ok''), (''scheduling'', JStr ''SILENT'')]\<rparr>,
                \<lparr>fr_id = ''call-2'', fr_name = ''adapt_tone'',
                 fr_response = JObj [(''result'', JStr ''ok''), (''scheduling'', JStr ''SILENT'')]\<rparr>])
          None,
        Log INFO ''Sent tool responses'']"
    by (simp add: sample_calls_def tool_events_def tool_call_message_def function_response_def
        calm_env_def)
  have "consume_turn calm_env connected_session []
          [quiet_delivery (tool_only_event \<lparr>function_calls = sample_calls\<rparr>)]
        = consume_turn calm_env connected_session
            (handle_tool_call calm_env connected_session [] \<lparr>function_calls = sample_calls\<rparr>) []"
    using t a by blast
  then have loop: "consume_turn calm_env connected_session []
         [quiet_delivery (tool_only_event \<lparr>function_calls = sample_calls\<rparr>)]
       = (Exhausted, connected_session,
          handle_tool_call calm_env connected_session [] \<lparr>function_calls = sample_calls\<rparr>)"
    by simp
  show ?thesis
    using ok s a trace loop by blast
qed

section \<open>An upstream event without server_content\<close>

lemma process_response_no_content:
  assumes "server_content r = None"
  shows "process_response e s tr r =
     (case fst (and_then (tool_call_step e s r tr)
                  (\<lambda>tr1. and_then (data_step e r tr1) (text_step e r))) of
        Some x \<Rightarrow> (Some x, snd (and_then (tool_call_step e s r tr)
                  (\<lambda>tr1. and_then (data_step e r tr1) (text_step e r))))
      | None \<Rightarrow> (Some (no_attribute ''NoneType'' ''input_transcription''),
                 snd (and_then (tool_call_step e s r tr)
                  (\<lambda>tr1. and_then (data_step e r tr1) (text_step e r)))))"
  using assms
  by (simp add: process_response_split and_then_def input_transcription_step_def
      split: option.splits)

lemma receive_responses_raise:
  assumes "is_active s" and "session s = Some ls" and "fst (process_response e s tr r) = Some x"
  shows "receive_responses e s tr
           (\<lparr>deliveries = quiet_delivery r # ds, cleared_at_end = c, stream_raises = sr\<rparr> # ts)
         = (Task_returned, s\<lparr>is_active := False\<rparr>,
            snd (process_response e s tr r) @ [Log ERROR ''Error receiving from Gemini: {e}''])"
  using assms
  by (simp add: quiet_delivery_def clear_if_def Let_def receive_failed_def)

text \<open>
  C10: when \<^verbatim>\<open>response.server_content\<close> is \<^verbatim>\<open>None\<close>, processing the event always ends in
  an exception, and the trace is the one the tool-call, audio and text steps leave: what
  they emitted is kept and nothing after them is emitted, so the turn-complete and
  interrupted tests are not reached. When the client's websocket accepts every message
  the exception is the \<^verbatim>\<open>AttributeError\<close> of reading \<^verbatim>\<open>input_transcription\<close> from
  \<^verbatim>\<open>None\<close>. In \<^verbatim>\<open>receive_responses\<close> the exception is logged, \<^verbatim>\<open>is_active\<close> is cleared
  and the coroutine returns: the rest of the turn and the later turns are not read.
\<close>

theorem missing_server_content_ends_loop:
  assumes "server_content r = None"
  shows "(\<exists>x. fst (process_response e s tr r) = Some x)
   \<and> snd (process_response e s tr r) =
       snd (and_then (tool_call_step e s r tr)
              (\<lambda>tr1. and_then (data_step e r tr1) (text_step e r)))
   \<and> (websocket_ok e \<longrightarrow>
         fst (process_response e s tr r) = Some (no_attribute ''NoneType'' ''input_transcription'')
         \<and> client_sends (snd (process_response e s tr r)) =
             client_sends tr @ spec_tool_messages r @ spec_audio_messages e r @ spec_text_messages r)
   \<and> (is_active s \<and> session s = Some ls \<longrightarrow>
         receive_responses e s tr
           (\<lparr>deliveries = quiet_delivery r # ds, cleared_at_end = c, stream_raises = sr\<rparr> # ts)
         = (Task_returned, s\<lparr>is_active := False\<rparr>,
            snd (process_response e s tr r) @ [Log ERROR ''Error receiving from Gemini: {e}'']))"
proof -
  have raised: "\<exists>x. fst (process_response e s tr r) = Some x"
    by (simp add: process_response_no_content [OF assms] split: option.splits)
  have kept: "snd (process_response e s tr r) =
       snd (and_then (tool_call_step e s r tr)
              (\<lambda>tr1. and_then (data_step e r tr1) (text_step e r)))"
    by (simp add: process_response_no_content [OF assms] split: option.splits)
  have ok: "websocket_ok e \<longrightarrow>
         fst (process_response e s tr r) = Some (no_attribute ''NoneType'' ''input_transcription'')
         \<and> client_sends (snd (process_response e s tr r)) =
             client_sends tr @ spec_tool_messages r @ spec_audio_messages e r @ spec_text_messages r"
  proof
    assume w: "websocket_ok e"
    show "fst (process_response e s tr r) = Some (no_attribute ''NoneType'' ''input_transcription'')
         \<and> client_sends (snd (process_response e s tr r)) =
             client_sends tr @ spec_tool_messages r @ spec_audio_messages e r @ spec_text_messages r"
      using first_steps_sends [OF w, of s r tr]
      by (simp add: process_response_no_content [OF assms])
  qed
  have loop: "is_active s \<and> session s = Some ls \<longrightarrow>
         receive_responses e s tr
           (\<lparr>deliveries = quiet_delivery r # ds, cleared_at_end = c, stream_raises = sr\<rparr> # ts)
         = (Task_returned, s\<lparr>is_active := False\<rparr>,
            snd (process_response e s tr r) @ [Log ERROR ''Error receiving from Gemini: {e}''])"
    using raised receive_responses_raise by blast
  show ?thesis
    using raised kept ok loop by blast
qed

theorem missing_server_content_ends_loop_witness:
  "server_content audio_only_event = None
   \<and> websocket_ok calm_env \<and> is_active connected_session
   \<and> session connected_session = Some Live_session
   \<and> fst (process_response calm_env connected_session [] audio_only_event) =
       Some (no_attribute ''NoneType'' ''input_transcription'')
   \<and> receive_responses calm_env connected_session []
        [\<lparr>deliveries = [quiet_delivery audio_only_event,
                        quiet_delivery transcript_and_turn_complete],
          cleared_at_end = False, stream_raises = None\<rparr>]
      = (Task_returned, connected_session\<lparr>is_active := False\<rparr>,
         [Call (Ws_send_json (JObj [(''type'', JStr ''audio_response''), (''data'', JStr ''AQID'')])) None,
          Log INFO ''Sent audio response to client ({len(response.data)} bytes)'',
          Log ERROR ''Error receiving from Gemini: {e}''])"
proof -
  have n: "server_content audio_only_event = None"
    by (simp add: audio_only_event_def)
  have a: "is_active connected_session" and s: "session connected_session = Some Live_session"
    by (simp_all add: connected_session_def)
  note t = missing_server_content_ends_loop [OF n, of calm_env connected_session "[]"
      Live_session "[quiet_delivery transcript_and_turn_complete]" False None "[]"]
  have raised: "fst (process_response calm_env connected_session [] audio_only_event) =
       Some (no_attribute ''NoneType'' ''input_transcription'')"
    using t websocket_ok_calm by blast
  have "snd (process_response calm_env connected_session [] audio_only_event) =
       snd (and_then (tool_call_step calm_env connected_session audio_only_event [])
              (\<lambda>tr1. and_then (data_step calm_env audio_only_event tr1)
                 (text_step calm_env audio_only_event)))"
    using t by blast
  also have "\<dots> =
       [Call (Ws_send_json (JObj [(''type'', JStr ''audio_response''), (''data'', JStr ''AQID'')])) None,
        Log INFO ''Sent audio response to client ({len(response.data)} bytes)'']"
    by (simp add: and_then_def tool_call_step_def data_step_def text_step_def
        audio_only_event_def perform_def calm_env_def audio_response_message_def
        sample_b64encode_def)
  finally have tr: "snd (process_response calm_env connected_session [] audio_only_event) =
       [Call (Ws_send_json (JObj [(''type'', JStr ''audio_response''), (''data'', JStr ''AQID'')])) None,
        Log INFO ''Sent audio response to client ({len(response.data)} bytes)'']" .
  have "receive_responses calm_env connected_session []
        [\<lparr>deliveries = [quiet_delivery audio_only_event,
                        quiet_delivery transcript_and_turn_complete],
          cleared_at_end = False, stream_raises = None\<rparr>]
      = (Task_returned, connected_session\<lparr>is_active := False\<rparr>,
         snd (process_response calm_env connected_session [] audio_only_event)
         @ [Log ERROR ''Error receiving from Gemini: {e}''])"
    using t a s by blast
  then show ?thesis
    using n a s raised websocket_ok_calm by (simp add: tr)
qed

section \<open>Failures of sends to the upstream\<close>

lemma send_audio_upstream_failure:
  assumes "session s = Some ls" and "is_active s" and "py_b64decode e c = Inr bs"
    and "raises e (tr @ [Log DEBUG ''Decoded {len(audio_bytes)} bytes of PCM audio''])
           (Send_realtime_input_media (audio_blob bs)) = Some x"
  shows "send_audio e s tr c =
           (s\<lparr>is_active := False\<rparr>,
            tr @ [Log DEBUG ''Decoded {len(audio_bytes)} bytes of PCM audio'',
                  Call (Send_realtime_input_media (audio_blob bs)) (Some x),
                  Log ERROR ''Error sending audio to Gemini: {e}''])"
  using assms by (simp add: send_audio_def Let_def perform_def send_audio_failed_def)

lemma end_of_turn_failure:
  assumes "session s = Some ls"
    and "py_get d ''type'' JNull = Inr (JStr ''end_of_turn'')"
    and "raises e (tr @ [Log INFO ''User finished speaking - sending realtime end signal to Gemini''])
           Send_realtime_input_end_of_turn = Some x"
  shows "handle_client_message e s tr (Inbound_json d) =
           (Continue, s,
            tr @ [Log INFO ''User finished speaking - sending realtime end signal to Gemini'',
                  Call Send_realtime_input_end_of_turn (Some x),
                  Log ERROR ''Error sending end_of_turn: {e}''])"
  using assms by (simp add: handle_client_message_def on_end_of_turn_def Let_def perform_def)

text \<open>
  C3: when the upstream call of \<^verbatim>\<open>send_audio\<close> raises, the error is logged and
  \<^verbatim>\<open>is_active\<close> is cleared, after which every \<^verbatim>\<open>send_audio\<close> only logs the warning and
  forwards nothing. When the upstream call for an \<^verbatim>\<open>end_of_turn\<close> message raises, the
  error is logged, the session is unchanged (still active) and the loop over the client's
  messages goes on with the next message.
\<close>

theorem send_failures_asymmetry:
  "(session s = Some ls \<and> is_active s \<and> py_b64decode e c = Inr bs
      \<and> raises e (tr @ [Log DEBUG ''Decoded {len(audio_bytes)} bytes of PCM audio''])
           (Send_realtime_input_media (audio_blob bs)) = Some x
    \<longrightarrow> send_audio e s tr c =
           (s\<lparr>is_active := False\<rparr>,
            tr @ [Log DEBUG ''Decoded {len(audio_bytes)} bytes of PCM audio'',
                  Call (Send_realtime_input_media (audio_blob bs)) (Some x),
                  Log ERROR ''Error sending audio to Gemini: {e}''])
        \<and> send_audio e (fst (send_audio e s tr c)) tr2 c2 =
            (s\<lparr>is_active := False\<rparr>, tr2 @ [Log WARNING ''Cannot send audio - session not active'']))
   \<and> (session s = Some ls \<and> is_active s
      \<and> py_get d ''type'' JNull = Inr (JStr ''end_of_turn'')
      \<and> raises e (tr @ [Log INFO ''User finished speaking - sending realtime end signal to Gemini''])
           Send_realtime_input_end_of_turn = Some x
    \<longrightarrow> handle_client_message e s tr (Inbound_json d) =
           (Continue, s,
            tr @ [Log INFO ''User finished speaking - sending realtime end signal to Gemini'',
                  Call Send_realtime_input_end_of_turn (Some x),
                  Log ERROR ''Error sending end_of_turn: {e}''])
        \<and> inbound_loop e s tr (quiet_arrival (Inbound_json d) # rest) =
            inbound_loop e s
              (tr @ [Log INFO ''User finished speaking - sending realtime end signal to Gemini'',
                     Call Send_realtime_input_end_of_turn (Some x),
                     Log ERROR ''Error sending end_of_turn: {e}''])
              rest)"
proof -
  have audio: "session s = Some ls \<and> is_active s \<and> py_b64decode e c = Inr bs
      \<and> raises e (tr @ [Log DEBUG ''Decoded {len(audio_bytes)} bytes of PCM audio''])
           (Send_realtime_input_media (audio_blob bs)) = Some x
    \<longrightarrow> send_audio e s tr c =
           (s\<lparr>is_active := False\<rparr>,
            tr @ [Log DEBUG ''Decoded {len(audio_bytes)} bytes of PCM audio'',
                  Call (Send_realtime_input_media (audio_blob bs)) (Some x),
                  Log ERROR ''Error sending audio to Gemini: {e}''])
        \<and> send_audio e (fst (send_audio e s tr c)) tr2 c2 =
            (s\<lparr>is_active := False\<rparr>, tr2 @ [Log WARNING ''Cannot send audio - session not active''])"
  proof (intro impI, elim conjE)
    assume h: "session s = Some ls" "is_active s" "py_b64decode e c = Inr bs"
      "raises e (tr @ [Log DEBUG ''Decoded {len(audio_bytes)} bytes of PCM audio''])
           (Send_realtime_input_media (audio_blob bs)) = Some x"
    have first: "send_audio e s tr c =
           (s\<lparr>is_active := False\<rparr>,
            tr @ [Log DEBUG ''Decoded {len(audio_bytes)} bytes of PCM audio'',
                  Call (Send_realtime_input_media (audio_blob bs)) (Some x),
                  Log ERROR ''Error sending audio to Gemini: {e}''])"
      using h by (rule send_audio_upstream_failure)
    have "send_audio e (s\<lparr>is_active := False\<rparr>) tr2 c2 =
            (s\<lparr>is_active := False\<rparr>, tr2 @ [Log WARNING ''Cannot send audio - session not active''])"
      by (rule send_audio_dropped) simp
    then show "send_audio e s tr c =
           (s\<lparr>is_active := False\<rparr>,
            tr @ [Log DEBUG ''Decoded {len(audio_bytes)} bytes of PCM audio'',
                  Call (Send_realtime_input_media (audio_blob bs)) (Some x),
                  Log ERROR ''Error sending audio to Gemini: {e}''])
        \<and> send_audio e (fst (send_audio e s tr c)) tr2 c2 =
            (s\<lparr>is_active := False\<rparr>, tr2 @ [Log WARNING ''Cannot send audio - session not active''])"
      by (simp add: first)
  qed
  have eot: "session s = Some ls \<and> is_active s
      \<and> py_get d ''type'' JNull = Inr (JStr ''end_of_turn'')
      \<and> raises e (tr @ [Log INFO ''User finished speaking - sending realtime end signal to Gemini''])
           Send_realtime_input_end_of_turn = Some x
    \<longrightarrow> handle_client_message e s tr (Inbound_json d) =
           (Continue, s,
            tr @ [Log INFO ''User finished speaking - sending realtime end signal to Gemini'',
                  Call Send_realtime_input_end_of_turn (Some x),
                  Log ERROR ''Error sending end_of_turn: {e}''])
        \<and> inbound_loop e s tr (quiet_arrival (Inbound_json d) # rest) =
            inbound_loop e s
              (tr @ [Log INFO ''User finished speaking - sending realtime end signal to Gemini'',
                     Call Send_realtime_input_end_of_turn (Some x),
                     Log ERROR ''Error sending end_of_turn: {e}''])
              rest"
  proof (intro impI, elim conjE)
    assume h: "session s = Some ls" "py_get d ''type'' JNull = Inr (JStr ''end_of_turn'')"
      "raises e (tr @ [Log INFO ''User finished speaking - sending realtime end signal to Gemini''])
           Send_realtime_input_end_of_turn = Some x"
      and a: "is_active s"
    have step: "handle_client_message e s tr (Inbound_json d) =
           (Continue, s,
            tr @ [Log INFO ''User finished speaking - sending realtime end signal to Gemini'',
                  Call Send_realtime_input_end_of_turn (Some x),
                  Log ERROR ''Error sending end_of_turn: {e}''])"
      using h by (rule end_of_turn_failure)
    show "handle_client_message e s tr (Inbound_json d) =
           (Continue, s,
            tr @ [Log INFO ''User finished speaking - sending realtime end signal to Gemini'',
                  Call Send_realtime_input_end_of_turn (Some x),
                  Log ERROR ''Error sending end_of_turn: {e}''])
        \<and> inbound_loop e s tr (quiet_arrival (Inbound_json d) # rest) =
            inbound_loop e s
              (tr @ [Log INFO ''User finished speaking - sending realtime end signal to Gemini'',
                     Call Send_realtime_input_end_of_turn (Some x),
                     Log ERROR ''Error sending end_of_turn: {e}''])
              rest"
      using a by (simp add: step quiet_arrival_def clear_if_def)
  qed
  show ?thesis
    using audio eot by blast
qed


lemma audio_blob_mime: "audio_blob bs = \<lparr>blob_data = bs, mimeType = ''audio/pcm;rate=16000''\<rparr>"
  by (simp add: audio_blob_def str_nat_sample_rate)

theorem send_failures_asymmetry_witness:
  "send_audio upstream_down_env connected_session [] (JStr ''AQID'') =
     (connected_session\<lparr>is_active := False\<rparr>,
      [Log DEBUG ''Decoded {len(audio_bytes)} bytes of PCM audio'',
       Call (Send_realtime_input_media \<lparr>blob_data = [1, 2, 3], mimeType = ''audio/pcm;rate=16000''\<rparr>)
         (Some (Exn OtherException ''upstream unavailable'')),
       Log ERROR ''Error sending audio to Gemini: {e}''])
   \<and> inbound_loop upstream_down_env connected_session []
        [quiet_arrival (Inbound_json end_of_turn_message), quiet_arrival (Inbound_json stop_message)]
      = (Loop_ended, connected_session,
         [Log INFO ''User finished speaking - sending realtime end signal to Gemini'',
          Call Send_realtime_input_end_of_turn (Some (Exn OtherException ''upstream unavailable'')),
          Log ERROR ''Error sending end_of_turn: {e}'',
          Log INFO ''Client requested stop''])"
proof -
  have s: "session connected_session = Some Live_session" and a: "is_active connected_session"
    by (simp_all add: connected_session_def)
  have dec: "py_b64decode upstream_down_env (JStr ''AQID'') = Inr [1, 2, 3]"
    by (simp add: py_b64decode_def upstream_down_env_def sample_b64decode_def)
  have r1: "raises upstream_down_env ([] @ [Log DEBUG ''Decoded {len(audio_bytes)} bytes of PCM audio''])
           (Send_realtime_input_media (audio_blob [1, 2, 3]))
         = Some (Exn OtherException ''upstream unavailable'')"
    by (simp add: upstream_down_env_def)
  have ty: "py_get end_of_turn_message ''type'' JNull = Inr (JStr ''end_of_turn'')"
    by (simp add: py_get_def end_of_turn_message_def)
  have r2: "raises upstream_down_env
           ([] @ [Log INFO ''User finished speaking - sending realtime end signal to Gemini''])
           Send_realtime_input_end_of_turn
         = Some (Exn OtherException ''upstream unavailable'')"
    by (simp add: upstream_down_env_def)
  note t = send_failures_asymmetry [where s = connected_session and ls = Live_session
      and e = upstream_down_env and c = "JStr ''AQID''" and bs = "[1, 2, 3]" and tr = "[]"
      and x = "Exn OtherException ''upstream unavailable''" and d = end_of_turn_message
      and rest = "[quiet_arrival (Inbound_json stop_message)]"]
  have audio: "send_audio upstream_down_env connected_session [] (JStr ''AQID'') =
     (connected_session\<lparr>is_active := False\<rparr>,
      [] @ [Log DEBUG ''Decoded {len(audio_bytes)} bytes of PCM audio'',
       Call (Send_realtime_input_media (audio_blob [1, 2, 3]))
         (Some (Exn OtherException ''upstream unavailable'')),
       Log ERROR ''Error sending audio to Gemini: {e}''])"
    using t s a dec r1 by blast
  have "inbound_loop upstream_down_env connected_session []
          (quiet_arrival (Inbound_json end_of_turn_message) # [quiet_arrival (Inbound_json stop_message)])
        = inbound_loop upstream_down_env connected_session
            ([] @ [Log INFO ''User finished speaking - sending realtime end signal to Gemini'',
              Call Send_realtime_input_end_of_turn (Some (Exn OtherException ''upstream unavailable'')),
              Log ERROR ''Error sending end_of_turn: {e}''])
            [quiet_arrival (Inbound_json stop_message)]"
    using t s a ty r2 by blast
  then have loop: "inbound_loop upstream_down_env connected_session []
        [quiet_arrival (Inbound_json end_of_turn_message), quiet_arrival (Inbound_json stop_message)]
      = (Loop_ended, connected_session,
         [Log INFO ''User finished speaking - sending realtime end signal to Gemini'',
          Call Send_realtime_input_end_of_turn (Some (Exn OtherException ''upstream unavailable'')),
          Log ERROR ''Error sending end_of_turn: {e}'',
          Log INFO ''Client requested stop''])"
    using a
    by (simp add: quiet_arrival_def clear_if_def handle_client_message_def py_get_def
        stop_message_def)
  show ?thesis
    using audio loop by (simp add: audio_blob_mime)
qed

section \<open>An audio chunk forwarded\<close>

lemma audio_chunk_step:
  assumes "session s = Some ls" and "is_active s" and "p \<noteq> []" and "b64decode e p = Inr bs"
    and "py_get d ''type'' JNull = Inr (JStr ''audio_chunk'')"
    and "py_get d ''data'' JNull = Inr (JStr p)"
  shows "handle_client_message e s tr (Inbound_json d) =
     (Continue,
      send_audio e s (tr @ [Log DEBUG ''Received audio chunk: {len(audio_base64)} bytes'']) (JStr p))"
  using assms
  by (simp add: handle_client_message_def on_audio_chunk_def truthy_def py_len_def Let_def)

lemma send_audio_valid:
  assumes "session s = Some ls" and "is_active s" and "b64decode e p = Inr bs"
  shows "send_audio e s tr (JStr p) =
     (if raises e (tr @ [Log DEBUG ''Decoded {len(audio_bytes)} bytes of PCM audio''])
           (Send_realtime_input_media (audio_blob bs)) = None then s
      else s\<lparr>is_active := False\<rparr>,
      tr @ [Log DEBUG ''Decoded {len(audio_bytes)} bytes of PCM audio'',
            Call (Send_realtime_input_media (audio_blob bs))
              (raises e (tr @ [Log DEBUG ''Decoded {len(audio_bytes)} bytes of PCM audio''])
                 (Send_realtime_input_media (audio_blob bs))),
            if raises e (tr @ [Log DEBUG ''Decoded {len(audio_bytes)} bytes of PCM audio''])
                 (Send_realtime_input_media (audio_blob bs)) = None
            then Log DEBUG ''Sent {len(audio_bytes)} bytes to Gemini''
            else Log ERROR ''Error sending audio to Gemini: {e}''])"
  using assms
  by (simp add: send_audio_def py_b64decode_def Let_def perform_def send_audio_failed_def
      split: option.splits)

lemma upstream_calls_append: "upstream_calls (xs @ ys) = upstream_calls xs @ upstream_calls ys"
  by (simp add: upstream_calls_def)

text \<open>
  C8, as the code has it: an \<^verbatim>\<open>audio_chunk\<close> message whose payload is a non-empty string
  that \<^verbatim>\<open>b64decode\<close> accepts, received while the session is open and active, makes
  exactly one upstream call, \<^verbatim>\<open>send_realtime_input\<close> with a blob holding the decoded bytes
  and the MIME type \<^verbatim>\<open>audio/pcm;rate=16000\<close>. The loop goes on; the session stays
  active when the call returns and is deactivated when it raises.
\<close>

theorem audio_chunk_forwarded:
  assumes "session s = Some ls" and "is_active s" and "p \<noteq> []" and "b64decode e p = Inr bs"
    and "py_get d ''type'' JNull = Inr (JStr ''audio_chunk'')"
    and "py_get d ''data'' JNull = Inr (JStr p)"
  shows "fst (handle_client_message e s tr (Inbound_json d)) = Continue
   \<and> upstream_calls (snd (snd (handle_client_message e s tr (Inbound_json d)))) =
       upstream_calls tr
       @ [Call (Send_realtime_input_media \<lparr>blob_data = bs, mimeType = ''audio/pcm;rate=16000''\<rparr>)
            (raises e (tr @ [Log DEBUG ''Received audio chunk: {len(audio_base64)} bytes'',
                             Log DEBUG ''Decoded {len(audio_bytes)} bytes of PCM audio''])
               (Send_realtime_input_media \<lparr>blob_data = bs, mimeType = ''audio/pcm;rate=16000''\<rparr>))]
   \<and> length (blob_data \<lparr>blob_data = bs, mimeType = ''audio/pcm;rate=16000''\<rparr>) = length bs
   \<and> is_active (fst (snd (handle_client_message e s tr (Inbound_json d)))) =
       (raises e (tr @ [Log DEBUG ''Received audio chunk: {len(audio_base64)} bytes'',
                        Log DEBUG ''Decoded {len(audio_bytes)} bytes of PCM audio''])
          (Send_realtime_input_media \<lparr>blob_data = bs, mimeType = ''audio/pcm;rate=16000''\<rparr>) = None)"
  using assms(2)
  by (simp add: audio_chunk_step [OF assms] send_audio_valid [OF assms(1,2,4)]
      upstream_calls_append audio_blob_mime)
    (simp add: upstream_calls_def)

theorem audio_chunk_forwarded_witness:
  "session connected_session = Some Live_session \<and> is_active connected_session
   \<and> ''AQID'' \<noteq> [] \<and> b64decode calm_env ''AQID'' = Inr [1, 2, 3]
   \<and> upstream_calls (snd (snd (handle_client_message calm_env connected_session []
                                  (Inbound_json (audio_chunk_message ''AQID''))))) =
       [Call (Send_realtime_input_media \<lparr>blob_data = [1, 2, 3], mimeType = ''audio/pcm;rate=16000''\<rparr>)
          None]
   \<and> is_active (fst (snd (handle_client_message calm_env connected_session []
                             (Inbound_json (audio_chunk_message ''AQID'')))))"
proof -
  have s: "session connected_session = Some Live_session" and a: "is_active connected_session"
    by (simp_all add: connected_session_def)
  have p: "''AQID'' \<noteq> []"
    by simp
  have dec: "b64decode calm_env ''AQID'' = Inr [1, 2, 3]"
    by (simp add: calm_env_def sample_b64decode_def)
  have ty: "py_get (audio_chunk_message ''AQID'') ''type'' JNull = Inr (JStr ''audio_chunk'')"
    and da: "py_get (audio_chunk_message ''AQID'') ''data'' JNull = Inr (JStr ''AQID'')"
    by (simp_all add: py_get_def audio_chunk_message_def)
  note t = audio_chunk_forwarded [OF s a p dec ty da, of "[]"]
  have r: "raises calm_env c h = None" for c h
    by (simp add: calm_env_def)
  show ?thesis
    using t s a dec by (simp add: r upstream_calls_def)
qed

text \<open>
  C8 as stated fails on the empty payload: it is valid base64 (of no bytes), and the
  handler skips \<^verbatim>\<open>send_audio\<close> because the empty string is falsy, so nothing is forwarded.
\<close>

theorem empty_audio_chunk_counterexample:
  "py_b64decode calm_env (JStr []) = Inr []
   \<and> handle_client_message calm_env connected_session []
        (Inbound_json (audio_chunk_message [])) = (Continue, connected_session, [])
   \<and> upstream_calls (snd (snd (handle_client_message calm_env connected_session []
                                  (Inbound_json (audio_chunk_message []))))) = []"
  by (simp add: py_b64decode_def calm_env_def sample_b64decode_def handle_client_message_def
      on_audio_chunk_def audio_chunk_message_def py_get_def truthy_def upstream_calls_def)

section \<open>The active flag\<close>

lemma send_audio_stays_inactive:
  "\<not> is_active s \<Longrightarrow> \<not> is_active (fst (send_audio e s tr c))"
  by (simp add: send_audio_dropped)

lemma receive_responses_inactive:
  "\<not> is_active s \<Longrightarrow> receive_responses e s tr ts = (Task_returned, s, tr)"
  by (cases ts) simp_all

lemma apply_operation_stays_inactive:
  assumes "\<not> is_active (fst st)" and "op \<noteq> Op_connect"
  shows "\<not> is_active (fst (apply_operation e st op))"
proof (cases st)
  case (Pair s tr)
  then have i: "\<not> is_active s"
    using assms(1) by simp
  show ?thesis
    using assms(2) i Pair
    by (cases op) (simp_all add: send_audio_stays_inactive receive_responses_inactive close_state)
qed

text \<open>
  C9, as the code has it: \<^verbatim>\<open>send_audio\<close>, \<^verbatim>\<open>handle_tool_call\<close>, \<^verbatim>\<open>receive_responses\<close>
  and \<^verbatim>\<open>close\<close> never set \<^verbatim>\<open>is_active\<close> to true: over any sequence of them, a flag that is
  false stays false. \<^verbatim>\<open>connect\<close> is the one method that sets it to true; the handler calls
  it once, before anything else.
\<close>

theorem active_flag_one_way:
  assumes "\<not> is_active s" and "Op_connect \<notin> set ops"
  shows "\<not> is_active (fst (run_operations e (s, tr) ops))"
proof -
  have "\<not> is_active (fst st) \<Longrightarrow> Op_connect \<notin> set ops
        \<Longrightarrow> \<not> is_active (fst (foldl (apply_operation e) st ops))" for st
  proof (induction ops arbitrary: st)
    case Nil
    then show ?case by simp
  next
    case (Cons op ops)
    have "\<not> is_active (fst (apply_operation e st op))"
      using Cons.prems by (intro apply_operation_stays_inactive) auto
    then show ?case
      using Cons.IH Cons.prems by simp
  qed
  then show ?thesis
    using assms by (simp add: run_operations_def)
qed

theorem active_flag_one_way_witness:
  "\<not> is_active (connected_session\<lparr>is_active := False\<rparr>)
   \<and> Op_connect \<notin> set [Op_send_audio (JStr ''AQID''), Op_receive_responses [], Op_close]
   \<and> \<not> is_active (fst (run_operations calm_env (connected_session\<lparr>is_active := False\<rparr>, [])
                          [Op_send_audio (JStr ''AQID''), Op_receive_responses [], Op_close]))"
  using active_flag_one_way [of "connected_session\<lparr>is_active := False\<rparr>"
          "[Op_send_audio (JStr ''AQID''), Op_receive_responses [], Op_close]" calm_env "[]"]
  by simp

text \<open>
  C9 as stated fails: \<^verbatim>\<open>close()\<close> sets the flag to false and a \<^verbatim>\<open>connect()\<close> after it
  sets it back to true.
\<close>

theorem reconnect_counterexample:
  "\<not> is_active (fst (run_operations calm_env (connected_session, []) [Op_close]))
   \<and> is_active (fst (run_operations calm_env (connected_session, []) [Op_close, Op_connect]))"
  by (simp add: run_operations_def close_def connect_def perform_def calm_env_def
      connected_session_def Let_def)

section \<open>The connection handler\<close>

lemma connect_frame:
  "filter is_cleanup (snd (snd (connect e s tr))) = filter is_cleanup tr
   \<and> (\<exists>ext. snd (snd (connect e s tr)) = tr @ ext)"
  by (simp add: connect_def connect_failed_def perform_def Let_def is_cleanup_def
      split: option.splits)

lemma connect_ok_state:
  "fst (connect e s tr) = Inr b \<Longrightarrow>
   session_manager (fst (snd (connect e s tr))) = Some Session_manager"
  by (simp add: connect_def connect_failed_def perform_def Let_def split: option.splits)

lemma send_audio_frame:
  "filter is_cleanup (snd (send_audio e s tr c)) = filter is_cleanup tr
   \<and> session_manager (fst (send_audio e s tr c)) = session_manager s
   \<and> (\<exists>ext. snd (send_audio e s tr c) = tr @ ext)"
  by (simp add: send_audio_def send_audio_failed_def perform_def Let_def is_cleanup_def
      split: option.splits sum.splits)

lemma loop_except_frame:
  "filter is_cleanup (snd (snd (loop_except x s tr))) = filter is_cleanup tr
   \<and> session_manager (fst (snd (loop_except x s tr))) = session_manager s
   \<and> (\<exists>ext. snd (snd (loop_except x s tr)) = tr @ ext)"
  by (simp add: loop_except_def is_cleanup_def)

lemma on_audio_chunk_frame:
  "filter is_cleanup (snd (snd (on_audio_chunk e s tr d))) = filter is_cleanup tr
   \<and> session_manager (fst (snd (on_audio_chunk e s tr d))) = session_manager s
   \<and> (\<exists>ext. snd (snd (on_audio_chunk e s tr d)) = tr @ ext)"
proof -
  have sa: "filter is_cleanup
              (snd (send_audio e s (tr @ [Log DEBUG ''Received audio chunk: {len(audio_base64)} bytes'']) c))
            = filter is_cleanup tr
     \<and> session_manager
          (fst (send_audio e s (tr @ [Log DEBUG ''Received audio chunk: {len(audio_base64)} bytes'']) c))
        = session_manager s
     \<and> (\<exists>ext. snd (send_audio e s (tr @ [Log DEBUG ''Received audio chunk: {len(audio_base64)} bytes'']) c)
              = tr @ ext)" for c
    using send_audio_frame [of e s "tr @ [Log DEBUG ''Received audio chunk: {len(audio_base64)} bytes'']" c]
    by (auto simp: is_cleanup_def)
  show ?thesis
    using sa loop_except_frame [of _ s tr]
    by (simp add: on_audio_chunk_def Let_def split: sum.splits)
qed

lemma on_end_of_turn_frame:
  "filter is_cleanup (snd (snd (on_end_of_turn e s tr))) = filter is_cleanup tr
   \<and> session_manager (fst (snd (on_end_of_turn e s tr))) = session_manager s
   \<and> (\<exists>ext. snd (snd (on_end_of_turn e s tr)) = tr @ ext)"
  by (simp add: on_end_of_turn_def perform_def Let_def is_cleanup_def split: option.splits)

lemma on_text_message_frame:
  "filter is_cleanup (snd (snd (on_text_message e s tr d))) = filter is_cleanup tr
   \<and> session_manager (fst (snd (on_text_message e s tr d))) = session_manager s
   \<and> (\<exists>ext. snd (snd (on_text_message e s tr d)) = tr @ ext)"
  by (simp add: on_text_message_def loop_except_def perform_def Let_def is_cleanup_def
      split: option.splits sum.splits)

lemma handle_client_message_frame:
  "filter is_cleanup (snd (snd (handle_client_message e s tr i))) = filter is_cleanup tr
   \<and> session_manager (fst (snd (handle_client_message e s tr i))) = session_manager s
   \<and> (\<exists>ext. snd (snd (handle_client_message e s tr i)) = tr @ ext)"
  using on_audio_chunk_frame [of e s tr] on_end_of_turn_frame [of e s tr]
    on_text_message_frame [of e s tr] loop_except_frame [of _ s tr]
  by (simp add: handle_client_message_def is_cleanup_def split: inbound.splits sum.splits)

lemma inbound_loop_frame:
  "filter is_cleanup (snd (snd (inbound_loop e s tr as))) = filter is_cleanup tr
   \<and> session_manager (fst (snd (inbound_loop e s tr as))) = session_manager s
   \<and> (\<exists>ext. snd (snd (inbound_loop e s tr as)) = tr @ ext)"
proof (induction as arbitrary: s tr)
  case Nil
  show ?case by simp
next
  case (Cons a as)
  obtain fl s1 tr1 where h:
    "handle_client_message e (clear_if (cleared_while_receiving a) s) tr (inbound a) = (fl, s1, tr1)"
    using prod_cases3 by blast
  have f: "filter is_cleanup tr1 = filter is_cleanup tr"
    and m: "session_manager s1 = session_manager s"
    and x: "\<exists>ext. tr1 = tr @ ext"
    using handle_client_message_frame
            [of e "clear_if (cleared_while_receiving a) s" tr "inbound a"] h
    by (simp_all add: clear_if_def)
  show ?case
  proof (cases fl)
    case Break
    then show ?thesis
      using h f m x by simp
  next
    case Continue
    have ih: "filter is_cleanup
                (snd (snd (inbound_loop e (clear_if (cleared_while_handling a) s1) tr1 as)))
              = filter is_cleanup tr1
      \<and> session_manager (fst (snd (inbound_loop e (clear_if (cleared_while_handling a) s1) tr1 as)))
          = session_manager (clear_if (cleared_while_handling a) s1)
      \<and> (\<exists>ext. snd (snd (inbound_loop e (clear_if (cleared_while_handling a) s1) tr1 as)) = tr1 @ ext)"
      using Cons.IH by blast
    have cm: "session_manager (clear_if (cleared_while_handling a) s1) = session_manager s1"
      by (simp add: clear_if_def)
    obtain ext1 where e1: "tr1 = tr @ ext1"
      using x by blast
    obtain ext2 where e2:
      "snd (snd (inbound_loop e (clear_if (cleared_while_handling a) s1) tr1 as)) = tr1 @ ext2"
      using ih by blast
    have "snd (snd (inbound_loop e (clear_if (cleared_while_handling a) s1) tr1 as))
            = tr @ (ext1 @ ext2)"
      using e1 e2 by simp
    then have ex: "\<exists>ext. snd (snd (inbound_loop e (clear_if (cleared_while_handling a) s1) tr1 as))
            = tr @ ext"
      by blast
    show ?thesis
      using Continue h ih f m cm ex by simp
  qed
qed

lemma ends_loop_breaks:
  "ends_loop i \<Longrightarrow> fst (handle_client_message e s tr i) = Break"
  by (auto simp: ends_loop_def handle_client_message_def loop_except_def
      split: inbound.splits sum.splits)

lemma inbound_loop_ends:
  assumes "ends_loop (inbound a)"
  shows "fst (inbound_loop e s tr (as @ [a])) = Loop_ended"
proof (induction as arbitrary: s tr)
  case Nil
  obtain fl s1 tr1 where h:
    "handle_client_message e (clear_if (cleared_while_receiving a) s) tr (inbound a) = (fl, s1, tr1)"
    using prod_cases3 by blast
  have "fl = Break"
    using ends_loop_breaks [OF assms, of e "clear_if (cleared_while_receiving a) s" tr] h by simp
  then show ?case
    using h by simp
next
  case (Cons b as)
  obtain fl s1 tr1 where h:
    "handle_client_message e (clear_if (cleared_while_receiving b) s) tr (inbound b) = (fl, s1, tr1)"
    using prod_cases3 by blast
  show ?case
    using h Cons.IH by (cases fl) simp_all
qed

lemma close_frame:
  "filter is_cleanup (snd (close e s tr)) =
     filter is_cleanup tr @ Close_called
       # (case session_manager s of
            None \<Rightarrow> []
          | Some m \<Rightarrow> [Call Session_manager_aexit (raises e (tr @ [Close_called]) Session_manager_aexit)])
   \<and> (\<exists>ext. snd (close e s tr) = tr @ ext)"
  by (simp add: close_def perform_def Let_def is_cleanup_def split: option.splits)

lemma finally_block_result:
  "fst (finally_block e s tr) = Handler_returned
   \<and> \<not> is_active (fst (snd (finally_block e s tr)))
   \<and> last (snd (snd (finally_block e s tr))) = Log INFO ''WebSocket connection closed''
   \<and> filter is_cleanup (snd (snd (finally_block e s tr))) =
       filter is_cleanup tr @ Close_called
         # (case session_manager s of
              None \<Rightarrow> []
            | Some m \<Rightarrow> [Call Session_manager_aexit (raises e (tr @ [Close_called]) Session_manager_aexit)])"
  by (simp add: finally_block_def Let_def close_state close_frame is_cleanup_def)


lemma endpoint_connect_failed:
  assumes "connect e init_session
             [Log INFO ''WebSocket connection established from {client_address}''] = (Inl x, s1, tr1)"
  shows "fst (websocket_endpoint e arrivals) = Handler_returned
   \<and> \<not> is_active (fst (snd (websocket_endpoint e arrivals)))
   \<and> last (snd (snd (websocket_endpoint e arrivals))) = Log INFO ''WebSocket connection closed''
   \<and> filter is_cleanup (snd (snd (websocket_endpoint e arrivals))) =
       Close_called
         # (case session_manager s1 of
              None \<Rightarrow> []
            | Some m \<Rightarrow>
                [Call Session_manager_aexit
                   (raises e
                      (tr1 @ [Log ERROR ''WebSocket error: {e}'',
                              Call (Ws_send_json (error_message x))
                                (raises e (tr1 @ [Log ERROR ''WebSocket error: {e}''])
                                   (Ws_send_json (error_message x))),
                              Close_called])
                      Session_manager_aexit)])"
proof -
  have "filter is_cleanup tr1 = []"
    using connect_frame [of e init_session
        "[Log INFO ''WebSocket connection established from {client_address}'']"] assms
    by (simp add: is_cleanup_def)
  then show ?thesis
    using assms
    by (simp add: websocket_endpoint_def endpoint_except_def Let_def perform_def
        finally_block_result is_cleanup_def split: option.splits)
qed

lemma endpoint_connect_ok:
  assumes "connect e init_session
             [Log INFO ''WebSocket connection established from {client_address}''] = (Inr b, s1, tr1)"
    and "inbound_loop e s1 (tr1 @ [Create_task]) arrivals = (Loop_ended, s2, tr2)"
  shows "fst (websocket_endpoint e arrivals) = Handler_returned
   \<and> \<not> is_active (fst (snd (websocket_endpoint e arrivals)))
   \<and> last (snd (snd (websocket_endpoint e arrivals))) = Log INFO ''WebSocket connection closed''
   \<and> filter is_cleanup (snd (snd (websocket_endpoint e arrivals))) =
       [Create_task, Cancel_task, Close_called,
        Call Session_manager_aexit
          (raises e (tr2 @ [Cancel_task, Close_called]) Session_manager_aexit)]"
proof -
  have c: "filter is_cleanup tr1 = []"
    using connect_frame [of e init_session
        "[Log INFO ''WebSocket connection established from {client_address}'']"] assms(1)
    by (simp add: is_cleanup_def)
  have m1: "session_manager s1 = Some Session_manager"
    using connect_ok_state [of e init_session
        "[Log INFO ''WebSocket connection established from {client_address}'']" b] assms(1)
    by simp
  have l: "filter is_cleanup tr2 = [Create_task]" and m2: "session_manager s2 = Some Session_manager"
    using inbound_loop_frame [of e s1 "tr1 @ [Create_task]" arrivals] assms(2) c m1
    by (simp_all add: is_cleanup_def)
  show ?thesis
    using assms l m2
    by (simp add: websocket_endpoint_def finally_block_result is_cleanup_def)
qed

text \<open>
  C6: the handler returns whenever the client's messages end with a stop message, a
  disconnect or another exception of the receive call, or a message that cannot be
  decoded. Whenever it returns, the session is inactive, the last event is the log line of
  the \<^verbatim>\<open>finally\<close> block, and the events of task control and cleanup in its trace are, in
  this order: the start of the outbound task and its cancellation (when \<^verbatim>\<open>connect()\<close>
  succeeded, so that the task was started), one entry into \<^verbatim>\<open>close()\<close>, and the release
  that this \<^verbatim>\<open>close()\<close> makes when a session manager was acquired.
\<close>

theorem cleanup_runs_once:
  "(ends_loop (inbound a) \<longrightarrow> fst (websocket_endpoint e (arrivals @ [a])) = Handler_returned)
   \<and> (fst (websocket_endpoint e arrivals) = Handler_returned \<longrightarrow>
        \<not> is_active (fst (snd (websocket_endpoint e arrivals)))
        \<and> last (snd (snd (websocket_endpoint e arrivals))) = Log INFO ''WebSocket connection closed''
        \<and> (\<exists>r. filter is_cleanup (snd (snd (websocket_endpoint e arrivals))) =
                   [Create_task, Cancel_task, Close_called, Call Session_manager_aexit r]
               \<or> filter is_cleanup (snd (snd (websocket_endpoint e arrivals))) =
                   [Close_called, Call Session_manager_aexit r]
               \<or> filter is_cleanup (snd (snd (websocket_endpoint e arrivals))) = [Close_called]))"
proof -
  obtain res s1 tr1 where c: "connect e init_session
      [Log INFO ''WebSocket connection established from {client_address}''] = (res, s1, tr1)"
    using prod_cases3 by blast
  have returns: "fst (websocket_endpoint e (arrivals @ [a])) = Handler_returned"
    if el: "ends_loop (inbound a)"
  proof (cases res)
    case (Inl x)
    then show ?thesis
      using c endpoint_connect_failed by blast
  next
    case (Inr b)
    obtain st s2 tr2 where l:
      "inbound_loop e s1 (tr1 @ [Create_task]) (arrivals @ [a]) = (st, s2, tr2)"
      using prod_cases3 by blast
    have "st = Loop_ended"
      using inbound_loop_ends [OF el, of e s1 "tr1 @ [Create_task]" arrivals] l by simp
    then show ?thesis
      using c Inr l endpoint_connect_ok by blast
  qed
  have shape: "\<not> is_active (fst (snd (websocket_endpoint e arrivals)))
        \<and> last (snd (snd (websocket_endpoint e arrivals))) = Log INFO ''WebSocket connection closed''
        \<and> (\<exists>r. filter is_cleanup (snd (snd (websocket_endpoint e arrivals))) =
                   [Create_task, Cancel_task, Close_called, Call Session_manager_aexit r]
               \<or> filter is_cleanup (snd (snd (websocket_endpoint e arrivals))) =
                   [Close_called, Call Session_manager_aexit r]
               \<or> filter is_cleanup (snd (snd (websocket_endpoint e arrivals))) = [Close_called])"
    if ret: "fst (websocket_endpoint e arrivals) = Handler_returned"
  proof (cases res)
    case (Inl x)
    show ?thesis
      using endpoint_connect_failed [OF c [unfolded Inl], of arrivals]
      by (cases "session_manager s1") auto
  next
    case (Inr b)
    obtain st s2 tr2 where l:
      "inbound_loop e s1 (tr1 @ [Create_task]) arrivals = (st, s2, tr2)"
      using prod_cases3 by blast
    have "st = Loop_ended"
      using ret c Inr l by (cases st) (simp_all add: websocket_endpoint_def)
    then show ?thesis
      using endpoint_connect_ok [OF c [unfolded Inr], of arrivals s2 tr2] l by auto
  qed
  show ?thesis
    using returns shape by blast
qed

theorem cleanup_runs_once_witness:
  "ends_loop (inbound (quiet_arrival (Inbound_json stop_message)))
   \<and> websocket_endpoint calm_env
        [quiet_arrival (Inbound_json end_of_turn_message), quiet_arrival (Inbound_json stop_message)]
      = (Handler_returned, connected_session\<lparr>is_active := False\<rparr>,
         [Log INFO ''WebSocket connection established from {client_address}'',
          Log INFO ''Connecting to Gemini model: {MODEL}'',
          Call Live_connect None,
          Log INFO ''Connected to Gemini Live API'',
          Call (Ws_send_json connected_message) None,
          Create_task,
          Log INFO ''User finished speaking - sending realtime end signal to Gemini'',
          Call Send_realtime_input_end_of_turn None,
          Log INFO ''Sent realtime end_of_turn signal to Gemini successfully'',
          Log INFO ''Client requested stop'',
          Cancel_task,
          Close_called,
          Call Session_manager_aexit None,
          Log INFO ''Closed Gemini session'',
          Log INFO ''WebSocket connection closed''])
   \<and> filter is_cleanup (snd (snd (websocket_endpoint calm_env
        [quiet_arrival (Inbound_json end_of_turn_message), quiet_arrival (Inbound_json stop_message)])))
      = [Create_task, Cancel_task, Close_called, Call Session_manager_aexit None]"
proof -
  have el: "ends_loop (inbound (quiet_arrival (Inbound_json stop_message)))"
    by (simp add: ends_loop_def quiet_arrival_def stop_message_def py_get_def)
  have run: "websocket_endpoint calm_env
        [quiet_arrival (Inbound_json end_of_turn_message), quiet_arrival (Inbound_json stop_message)]
      = (Handler_returned, connected_session\<lparr>is_active := False\<rparr>,
         [Log INFO ''WebSocket connection established from {client_address}'',
          Log INFO ''Connecting to Gemini model: {MODEL}'',
          Call Live_connect None,
          Log INFO ''Connected to Gemini Live API'',
          Call (Ws_send_json connected_message) None,
          Create_task,
          Log INFO ''User finished speaking - sending realtime end signal to Gemini'',
          Call Send_realtime_input_end_of_turn None,
          Log INFO ''Sent realtime end_of_turn signal to Gemini successfully'',
          Log INFO ''Client requested stop'',
          Cancel_task,
          Close_called,
          Call Session_manager_aexit None,
          Log INFO ''Closed Gemini session'',
          Log INFO ''WebSocket connection closed''])"
    by (simp add: websocket_endpoint_def connect_def perform_def calm_env_def init_session_def
        connected_session_def Let_def quiet_arrival_def clear_if_def handle_client_message_def
        on_end_of_turn_def end_of_turn_message_def stop_message_def py_get_def
        finally_block_def close_def)
  note t = cleanup_runs_once [of "quiet_arrival (Inbound_json stop_message)" calm_env
      "[quiet_arrival (Inbound_json end_of_turn_message)]"]
  have "fst (websocket_endpoint calm_env
        ([quiet_arrival (Inbound_json end_of_turn_message)] @ [quiet_arrival (Inbound_json stop_message)]))
      = Handler_returned"
    using t el by blast
  then show ?thesis
    using el run by (simp add: is_cleanup_def)
qed

section \<open>A connection attempt is answered\<close>

lemma client_receives_append:
  "client_receives (xs @ ys) = client_receives xs @ client_receives ys"
  by (simp add: client_receives_def client_sends_append)

lemma connect_open_failed:
  assumes "raises e (tr @ [Log INFO ''Connecting to Gemini model: {MODEL}'']) Live_connect = Some x"
  shows "connect e s tr =
           (Inl x, s\<lparr>is_active := False\<rparr>,
            tr @ [Log INFO ''Connecting to Gemini model: {MODEL}'',
                  Call Live_connect (Some x),
                  Log ERROR ''Error connecting to Gemini: {e}''])"
  using assms by (simp add: connect_def connect_failed_def perform_def Let_def)

lemma connect_failed_inactive:
  "fst (connect e s tr) = Inl x \<Longrightarrow> \<not> is_active (fst (snd (connect e s tr)))"
  by (simp add: connect_def connect_failed_def perform_def Let_def split: option.splits)

lemma connect_opened_sends:
  assumes "raises e (tr @ [Log INFO ''Connecting to Gemini model: {MODEL}'']) Live_connect = None"
  shows "client_sends (snd (snd (connect e s tr))) = client_sends tr @ [connected_message]
   \<and> (websocket_ok e \<longrightarrow>
         client_receives (snd (snd (connect e s tr))) = client_receives tr @ [connected_message])"
  using assms
  by (simp add: connect_def connect_failed_def perform_def Let_def client_sends_append
      client_receives_def websocket_ok_def split: option.splits)

lemma endpoint_extends_connect:
  "\<exists>ext. snd (snd (websocket_endpoint e arrivals)) =
     snd (snd (connect e init_session
                 [Log INFO ''WebSocket connection established from {client_address}''])) @ ext"
proof -
  obtain res s1 tr1 where c: "connect e init_session
      [Log INFO ''WebSocket connection established from {client_address}''] = (res, s1, tr1)"
    using prod_cases3 by blast
  show ?thesis
  proof (cases res)
    case (Inl x)
    obtain ext where "snd (close e s1
        (tr1 @ [Log ERROR ''WebSocket error: {e}'',
                Call (Ws_send_json (error_message x))
                  (raises e (tr1 @ [Log ERROR ''WebSocket error: {e}''])
                     (Ws_send_json (error_message x)))]))
      = (tr1 @ [Log ERROR ''WebSocket error: {e}'',
                Call (Ws_send_json (error_message x))
                  (raises e (tr1 @ [Log ERROR ''WebSocket error: {e}''])
                     (Ws_send_json (error_message x)))]) @ ext"
      using close_frame by blast
    then show ?thesis
      using c Inl
      by (simp add: websocket_endpoint_def endpoint_except_def finally_block_def perform_def
          Let_def)
  next
    case (Inr b)
    obtain st s2 tr2 where l:
      "inbound_loop e s1 (tr1 @ [Create_task]) arrivals = (st, s2, tr2)"
      using prod_cases3 by blast
    obtain ext1 where e1: "tr2 = (tr1 @ [Create_task]) @ ext1"
      using inbound_loop_frame [of e s1 "tr1 @ [Create_task]" arrivals] l by auto
    obtain ext2 where e2: "snd (close e s2 (tr2 @ [Cancel_task])) = (tr2 @ [Cancel_task]) @ ext2"
      using close_frame by blast
    show ?thesis
      using c Inr l e1 e2
      by (cases st) (simp_all add: websocket_endpoint_def finally_block_def Let_def)
  qed
qed

lemma endpoint_open_failed:
  assumes "raises e [Log INFO ''WebSocket connection established from {client_address}'',
                     Log INFO ''Connecting to Gemini model: {MODEL}''] Live_connect = Some x"
  shows "websocket_endpoint e arrivals =
     (Handler_returned, init_session,
      [Log INFO ''WebSocket connection established from {client_address}'',
       Log INFO ''Connecting to Gemini model: {MODEL}'',
       Call Live_connect (Some x),
       Log ERROR ''Error connecting to Gemini: {e}'',
       Log ERROR ''WebSocket error: {e}'',
       Call (Ws_send_json (error_message x))
         (raises e
            [Log INFO ''WebSocket connection established from {client_address}'',
             Log INFO ''Connecting to Gemini model: {MODEL}'',
             Call Live_connect (Some x),
             Log ERROR ''Error connecting to Gemini: {e}'',
             Log ERROR ''WebSocket error: {e}'']
            (Ws_send_json (error_message x))),
       Close_called,
       Log INFO ''WebSocket connection closed''])"
proof -
  have "connect e init_session [Log INFO ''WebSocket connection established from {client_address}'']
        = (Inl x, init_session\<lparr>is_active := False\<rparr>,
           [Log INFO ''WebSocket connection established from {client_address}''] @
           [Log INFO ''Connecting to Gemini model: {MODEL}'',
            Call Live_connect (Some x),
            Log ERROR ''Error connecting to Gemini: {e}''])"
    using assms by (intro connect_open_failed) simp
  then show ?thesis
    by (simp add: websocket_endpoint_def endpoint_except_def finally_block_def perform_def
        close_def init_session_def Let_def)
qed

text \<open>
  C7: when the call that opens the upstream session raises, \<^verbatim>\<open>connect()\<close> logs the error,
  leaves \<^verbatim>\<open>is_active\<close> false and re-raises the exception (as after any failure of
  \<^verbatim>\<open>connect()\<close>); the handler then sends the client an \<^verbatim>\<open>error\<close> message carrying the
  text of the exception, and runs its cleanup. In every run the first message handed to
  the client's websocket is \<^verbatim>\<open>connected\<close> or \<^verbatim>\<open>error\<close>; when the websocket accepts
  every message, that is the first message the client receives.
\<close>

theorem connect_failure_reported:
  "(raises e (tr @ [Log INFO ''Connecting to Gemini model: {MODEL}'']) Live_connect = Some x \<longrightarrow>
      connect e s tr =
        (Inl x, s\<lparr>is_active := False\<rparr>,
         tr @ [Log INFO ''Connecting to Gemini model: {MODEL}'',
               Call Live_connect (Some x),
               Log ERROR ''Error connecting to Gemini: {e}'']))
   \<and> (fst (connect e s tr) = Inl x \<longrightarrow> \<not> is_active (fst (snd (connect e s tr))))
   \<and> (raises e [Log INFO ''WebSocket connection established from {client_address}'',
                Log INFO ''Connecting to Gemini model: {MODEL}''] Live_connect = Some x \<longrightarrow>
        fst (websocket_endpoint e arrivals) = Handler_returned
        \<and> \<not> is_active (fst (snd (websocket_endpoint e arrivals)))
        \<and> client_sends (snd (snd (websocket_endpoint e arrivals))) = [error_message x]
        \<and> (websocket_ok e \<longrightarrow>
             client_receives (snd (snd (websocket_endpoint e arrivals))) = [error_message x]))
   \<and> client_sends (snd (snd (websocket_endpoint e arrivals))) \<noteq> []
   \<and> (hd (client_sends (snd (snd (websocket_endpoint e arrivals)))) = connected_message
       \<or> (\<exists>y. hd (client_sends (snd (snd (websocket_endpoint e arrivals)))) = error_message y))
   \<and> (websocket_ok e \<longrightarrow>
        client_receives (snd (snd (websocket_endpoint e arrivals))) \<noteq> []
        \<and> (hd (client_receives (snd (snd (websocket_endpoint e arrivals)))) = connected_message
            \<or> (\<exists>y. hd (client_receives (snd (snd (websocket_endpoint e arrivals)))) = error_message y)))"
proof -
  let ?tr0 = "[Log INFO ''WebSocket connection established from {client_address}'']"
  let ?T = "snd (snd (websocket_endpoint e arrivals))"
  have a: "raises e (tr @ [Log INFO ''Connecting to Gemini model: {MODEL}'']) Live_connect = Some x \<longrightarrow>
      connect e s tr =
        (Inl x, s\<lparr>is_active := False\<rparr>,
         tr @ [Log INFO ''Connecting to Gemini model: {MODEL}'',
               Call Live_connect (Some x),
               Log ERROR ''Error connecting to Gemini: {e}''])"
    using connect_open_failed by blast
  have b: "fst (connect e s tr) = Inl x \<longrightarrow> \<not> is_active (fst (snd (connect e s tr)))"
    using connect_failed_inactive by blast
  have failed: "fst (websocket_endpoint e arrivals) = Handler_returned
        \<and> \<not> is_active (fst (snd (websocket_endpoint e arrivals)))
        \<and> client_sends ?T = [error_message y]
        \<and> (websocket_ok e \<longrightarrow> client_receives ?T = [error_message y])"
    if f: "raises e [Log INFO ''WebSocket connection established from {client_address}'',
                Log INFO ''Connecting to Gemini model: {MODEL}''] Live_connect = Some y" for y
    by (simp add: endpoint_open_failed [OF f] init_session_def client_receives_def
        websocket_ok_def)
  have first: "client_sends ?T \<noteq> []
      \<and> (hd (client_sends ?T) = connected_message \<or> (\<exists>y. hd (client_sends ?T) = error_message y))
      \<and> (websocket_ok e \<longrightarrow>
          client_receives ?T \<noteq> []
          \<and> (hd (client_receives ?T) = connected_message
              \<or> (\<exists>y. hd (client_receives ?T) = error_message y)))"
  proof (cases "raises e (?tr0 @ [Log INFO ''Connecting to Gemini model: {MODEL}'']) Live_connect")
    case (Some y)
    then show ?thesis
      using failed [of y] by auto
  next
    case None
    obtain ext where ext: "?T = snd (snd (connect e init_session ?tr0)) @ ext"
      using endpoint_extends_connect by blast
    have s: "client_sends (snd (snd (connect e init_session ?tr0))) = [connected_message]"
      and r: "websocket_ok e \<longrightarrow>
              client_receives (snd (snd (connect e init_session ?tr0))) = [connected_message]"
      using connect_opened_sends [OF None, of init_session]
      by (simp_all add: client_receives_def)
    have "client_sends ?T = connected_message # client_sends ext"
      using ext s by (simp add: client_sends_append)
    moreover have "websocket_ok e \<longrightarrow> client_receives ?T = connected_message # client_receives ext"
      using ext r by (simp add: client_receives_append)
    ultimately show ?thesis
      by simp
  qed
  show ?thesis
    using a b failed [of x] first by blast
qed

theorem connect_failure_reported_witness:
  "raises upstream_down_env
     [Log INFO ''WebSocket connection established from {client_address}'',
      Log INFO ''Connecting to Gemini model: {MODEL}''] Live_connect
     = Some (Exn OtherException ''upstream unavailable'')
   \<and> websocket_ok upstream_down_env
   \<and> fst (websocket_endpoint upstream_down_env []) = Handler_returned
   \<and> \<not> is_active (fst (snd (websocket_endpoint upstream_down_env [])))
   \<and> client_receives (snd (snd (websocket_endpoint upstream_down_env []))) =
       [JObj [(''type'', JStr ''error''), (''message'', JStr ''upstream unavailable'')]]"
proof -
  have f: "raises upstream_down_env
     [Log INFO ''WebSocket connection established from {client_address}'',
      Log INFO ''Connecting to Gemini model: {MODEL}''] Live_connect
     = Some (Exn OtherException ''upstream unavailable'')"
    by (simp add: upstream_down_env_def)
  note t = connect_failure_reported [where e = upstream_down_env and arrivals = "[]"
      and x = "Exn OtherException ''upstream unavailable''"]
  have "fst (websocket_endpoint upstream_down_env []) = Handler_returned
        \<and> \<not> is_active (fst (snd (websocket_endpoint upstream_down_env [])))
        \<and> client_receives (snd (snd (websocket_endpoint upstream_down_env []))) =
            [error_message (Exn OtherException ''upstream unavailable'')]"
    using t f websocket_ok_upstream_down by blast
  then show ?thesis
    using f websocket_ok_upstream_down by (simp add: error_message_def)
qed

end
